theory Spec2Isabelle
  imports Main
begin

section \<open>Values, exceptions and console output\<close>

text \<open>
  The plugin \<^verbatim>\<open>viteGenerateHtmlI18n\<close> is a synchronous script over
  external libraries: Node's \<^verbatim>\<open>fs\<close> and \<^verbatim>\<open>path\<close>, \<^verbatim>\<open>glob\<close> and
  \<^verbatim>\<open>jsdom\<close>. A JavaScript exception is a value of type \<open>error\<close>; a computation
  that may throw returns \<open>error + 'a\<close> together with the state it reached, because the
  effects made before a throw (files written, lines printed) stay.
\<close>

datatype error =
    HookFailure string
  | SyntaxError string
  | FsError string string

text \<open>
  A per-language table \<^verbatim>\<open>Record<TranslationKey, string>\<close> is an association list;
  the property read \<^verbatim>\<open>translations[lang][key]\<close> is \<open>map_of\<close>, and \<open>None\<close> is
  JavaScript's \<^verbatim>\<open>undefined\<close>. The whole table is an association list in the order
  of \<^verbatim>\<open>Object.keys\<close>.
\<close>

type_synonym table = "(string \<times> string) list"

datatype pattern = Pattern string | Patterns "string list"

record meta =
  metaKey :: string
  metaLanguage :: string
  metaTranslations :: table

record document_meta =
  documentLanguage :: string
  documentTranslations :: table

datatype console_arg = Str string | Pat pattern

text \<open>
  The trace of a run: the console lines of the source (\<open>ConsoleLog\<close>, \<open>ConsoleWarn\<close>)
  and, as instrumentation, one entry for each call of a caller-supplied function and for
  each assignment to \<^verbatim>\<open>innerHTML\<close>, in the order in which the code makes them. A
  call that receives the document records the document it receives.
\<close>

datatype ('d, 'e) event =
    ConsoleLog "console_arg list"
  | ConsoleWarn string
  | CallGlob string
  | CallModifyDocumentBefore 'd document_meta
  | CallGetTranslationKey 'e
  | CallMissingTranslationVerboseFilter string string table
  | CallFormatTranslation "string option" meta
  | SetInnerHTML 'e string
  | CallModifyElement 'e "string option" meta 'd
  | CallModifyDocumentAfter 'd document_meta
  | Serialize 'd

definition colors_reset :: "string \<Rightarrow> string" where
  "colors_reset message = CHR 0x1B # ''[0m'' @ message"

definition colors_cyan :: "string \<Rightarrow> string" where
  "colors_cyan message = CHR 0x1B # ''[36m'' @ message"

definition colors_green :: "string \<Rightarrow> string" where
  "colors_green message = CHR 0x1B # ''[32m'' @ message"

definition colors_yellow :: "string \<Rightarrow> string" where
  "colors_yellow message = CHR 0x1B # ''[33m'' @ message"

definition colors_gray :: "string \<Rightarrow> string" where
  "colors_gray message = CHR 0x1B # ''[90m'' @ message"

definition logPluginPrefix :: string where
  "logPluginPrefix =
     colors_reset ''['' @ colors_cyan ''vite-plugin-generate-html-i18n'' @ colors_reset '']''"

text \<open>JavaScript truthiness of a string-or-undefined value, and \<^verbatim>\<open>value || ""\<close>.\<close>

definition truthy :: "string option \<Rightarrow> bool" where
  "truthy v = (case v of None \<Rightarrow> False | Some s \<Rightarrow> s \<noteq> [])"

definition orEmpty :: "string option \<Rightarrow> string" where
  "orEmpty v = (case v of None \<Rightarrow> [] | Some s \<Rightarrow> s)"

section \<open>Sequencing with exceptions\<close>

type_synonym ('a, 's) prog = "'s \<Rightarrow> (error + 'a) \<times> 's"

definition unitM :: "'a \<Rightarrow> ('a, 's) prog" where
  "unitM x = (\<lambda>s. (Inr x, s))"

definition bindM :: "('a, 's) prog \<Rightarrow> ('a \<Rightarrow> ('b, 's) prog) \<Rightarrow> ('b, 's) prog" where
  "bindM m f = (\<lambda>s. case m s of (Inl e, s') \<Rightarrow> (Inl e, s') | (Inr x, s') \<Rightarrow> f x s')"

text \<open>\<^verbatim>\<open>xs.forEach(f)\<close> and \<^verbatim>\<open>xs.map(f)\<close>: a throw in the callback leaves the loop.\<close>

fun forEachM :: "('a \<Rightarrow> (unit, 's) prog) \<Rightarrow> 'a list \<Rightarrow> (unit, 's) prog" where
  "forEachM f [] = unitM ()"
| "forEachM f (x # xs) = bindM (f x) (\<lambda>_. forEachM f xs)"

fun mapM :: "('a \<Rightarrow> ('b, 's) prog) \<Rightarrow> 'a list \<Rightarrow> ('b list, 's) prog" where
  "mapM f [] = unitM []"
| "mapM f (x # xs) = bindM (f x) (\<lambda>y. bindM (mapM f xs) (\<lambda>ys. unitM (y # ys)))"

section \<open>The options of the plugin and the libraries it calls\<close>

text \<open>
  \<^verbatim>\<open>ViteGenerateHtmlI18nOptions\<close>, field by field. An optional field is an \<open>option\<close>;
  \<^verbatim>\<open>translations\<close> and \<^verbatim>\<open>verbose\<close> are the fields \<open>translations_option\<close> and
  \<open>verbose_option\<close>.
  A caller-supplied function is a function of the arguments the plugin passes to it; one
  that receives the document or an element of it also receives, and may change, the state
  \<open>'d\<close> of the DOM, and each may throw. The record is extensible, as a JavaScript object
  is: \<^verbatim>\<open>viteGenerateHtmlI18n\<close> destructures the ten fields below and reads no other
  property of the object it is given.
\<close>

record ('d, 'e) options =
  glob :: "(string \<Rightarrow> error + pattern) option"
  translations_option :: "(string \<times> table) list"
  selector :: string
  getTranslationKey :: "'e \<Rightarrow> 'd \<Rightarrow> error + string option"
  formatTranslation :: "(string option \<Rightarrow> meta \<Rightarrow> error + string) option"
  modifyElement :: "('e \<Rightarrow> string option \<Rightarrow> meta \<Rightarrow> 'd \<Rightarrow> error + 'd) option"
  modifyDocumentBefore :: "('d \<Rightarrow> document_meta \<Rightarrow> error + 'd) option"
  modifyDocumentAfter :: "('d \<Rightarrow> document_meta \<Rightarrow> error + 'd) option"
  verbose_option :: "bool option"
  missingTranslationVerboseFilter :: "(string \<Rightarrow> string \<Rightarrow> table \<Rightarrow> error + bool) option"

text \<open>
  The example configuration of the repository passes one more property,
  \<^verbatim>\<open>deleteSourceHtmlFiles: true\<close>; the options type of the plugin does not declare it.
\<close>

record ('d, 'e) example_options = "('d, 'e) options" +
  deleteSourceHtmlFiles :: bool

text \<open>The defaults of the destructuring: \<^verbatim>\<open>verbose = true\<close>, the filter \<^verbatim>\<open>() => true\<close>.\<close>

definition verboseOf :: "('d, 'e, 'z) options_scheme \<Rightarrow> bool" where
  "verboseOf opts = (case verbose_option opts of None \<Rightarrow> True | Some b \<Rightarrow> b)"

definition filterOf ::
  "('d, 'e, 'z) options_scheme \<Rightarrow> string \<Rightarrow> string \<Rightarrow> table \<Rightarrow> error + bool" where
  "filterOf opts =
     (case missingTranslationVerboseFilter opts of
        None \<Rightarrow> (\<lambda>key lang t. Inr True)
      | Some f \<Rightarrow> f)"

definition languages :: "('d, 'e, 'z) options_scheme \<Rightarrow> string list" where
  "languages opts = map fst (translations_option opts)"

text \<open>
  \<^verbatim>\<open>translations[lang]\<close>. The code reads it only for \<open>lang\<close> among the keys of the
  object, where it is defined.
\<close>

definition translationsOf :: "('d, 'e, 'z) options_scheme \<Rightarrow> string \<Rightarrow> table" where
  "translationsOf opts lang = (case map_of (translations_option opts) lang of None \<Rightarrow> [] | Some t \<Rightarrow> t)"

definition lookupTranslation :: "('d, 'e, 'z) options_scheme \<Rightarrow> string \<Rightarrow> string \<Rightarrow> string option" where
  "lookupTranslation opts lang key = map_of (translationsOf opts lang) key"

definition metaOf :: "('d, 'e, 'z) options_scheme \<Rightarrow> string \<Rightarrow> string \<Rightarrow> meta" where
  "metaOf opts lang key =
     \<lparr>metaKey = key, metaLanguage = lang, metaTranslations = translationsOf opts lang\<rparr>"

definition documentMetaOf :: "('d, 'e, 'z) options_scheme \<Rightarrow> string \<Rightarrow> document_meta" where
  "documentMetaOf opts lang =
     \<lparr>documentLanguage = lang, documentTranslations = translationsOf opts lang\<rparr>"

section \<open>The file system\<close>

record filesystem =
  files :: "string \<rightharpoonup> string"
  dirs :: "string set"

text \<open>
  What the plugin uses of \<^verbatim>\<open>jsdom\<close> and \<^verbatim>\<open>glob\<close>. \<open>'d\<close> is the state of
  one \<^verbatim>\<open>JSDOM\<close> instance (its document and every node made from it, attached or not),
  \<open>'e\<close> a reference to an element. \<^verbatim>\<open>querySelectorAll\<close> throws on a selector that
  is not valid and returns a static list in document order.
\<close>

record ('d, 'e) host =
  globSync :: "pattern \<Rightarrow> filesystem \<Rightarrow> string list"
  newJSDOM :: "string \<Rightarrow> 'd"
  querySelectorAll :: "string \<Rightarrow> 'd \<Rightarrow> error + 'e list"
  setInnerHTML :: "'e \<Rightarrow> string \<Rightarrow> 'd \<Rightarrow> 'd"
  serialize :: "'d \<Rightarrow> string"

section \<open>One selected element\<close>

type_synonym ('d, 'e) pass = "'d \<times> ('d, 'e) event list"

definition emit :: "('d, 'e) event \<Rightarrow> (unit, ('d, 'e) pass) prog" where
  "emit ev = (\<lambda>(d, tr). (Inr (), (d, tr @ [ev])))"

definition callGetTranslationKey ::
  "('d, 'e, 'z) options_scheme \<Rightarrow> 'e \<Rightarrow> (string option, ('d, 'e) pass) prog" where
  "callGetTranslationKey opts element =
     (\<lambda>(d, tr). (getTranslationKey opts element d, (d, tr @ [CallGetTranslationKey element])))"

definition callFilter ::
  "('d, 'e, 'z) options_scheme \<Rightarrow> string \<Rightarrow> string \<Rightarrow> (bool, ('d, 'e) pass) prog" where
  "callFilter opts key lang =
     (\<lambda>(d, tr). (filterOf opts key lang (translationsOf opts lang),
        (d, tr @ [CallMissingTranslationVerboseFilter key lang (translationsOf opts lang)])))"

definition callFormatTranslation ::
  "(string option \<Rightarrow> meta \<Rightarrow> error + string) \<Rightarrow> string option \<Rightarrow> meta \<Rightarrow>
     (string, ('d, 'e) pass) prog" where
  "callFormatTranslation f v m = (\<lambda>(d, tr). (f v m, (d, tr @ [CallFormatTranslation v m])))"

definition assignInnerHTML ::
  "('d, 'e) host \<Rightarrow> 'e \<Rightarrow> string \<Rightarrow> (unit, ('d, 'e) pass) prog" where
  "assignInnerHTML H element html =
     (\<lambda>(d, tr). (Inr (), (setInnerHTML H element html d, tr @ [SetInnerHTML element html])))"

definition callModifyElement ::
  "('e \<Rightarrow> string option \<Rightarrow> meta \<Rightarrow> 'd \<Rightarrow> error + 'd) \<Rightarrow> 'e \<Rightarrow> string option \<Rightarrow> meta \<Rightarrow>
     (unit, ('d, 'e) pass) prog" where
  "callModifyElement f element v m =
     (\<lambda>(d, tr). case f element v m d of
        Inl err \<Rightarrow> (Inl err, (d, tr @ [CallModifyElement element v m d]))
      | Inr d' \<Rightarrow> (Inr (), (d', tr @ [CallModifyElement element v m d])))"

text \<open>Lines 251-265: the warning for a translation that is not found.\<close>

definition warnMissingTranslation ::
  "('d, 'e, 'z) options_scheme \<Rightarrow> string \<Rightarrow> string \<Rightarrow> (unit, ('d, 'e) pass) prog" where
  "warnMissingTranslation opts lang key =
     (if \<not> truthy (lookupTranslation opts lang key) then
        (if verboseOf opts then
           bindM (callFilter opts key lang) (\<lambda>needLog.
             if needLog then
               emit (ConsoleWarn (colors_yellow (''Translation not found: '' @ lang @ ''.'' @ key)))
             else unitM ())
         else unitM ())
      else unitM ())"

text \<open>Lines 267-275: the new inner content of the element.\<close>

definition applyTranslation ::
  "('d, 'e) host \<Rightarrow> ('d, 'e, 'z) options_scheme \<Rightarrow> string \<Rightarrow> 'e \<Rightarrow> string \<Rightarrow>
     (unit, ('d, 'e) pass) prog" where
  "applyTranslation H opts lang element key =
     (case formatTranslation opts of
        Some f \<Rightarrow>
          bindM (callFormatTranslation f (lookupTranslation opts lang key) (metaOf opts lang key))
            (\<lambda>html. assignInnerHTML H element html)
      | None \<Rightarrow> assignInnerHTML H element (orEmpty (lookupTranslation opts lang key)))"

text \<open>Lines 277-283: the hook that modifies the element.\<close>

definition applyModifyElement ::
  "('d, 'e, 'z) options_scheme \<Rightarrow> string \<Rightarrow> 'e \<Rightarrow> string \<Rightarrow> (unit, ('d, 'e) pass) prog" where
  "applyModifyElement opts lang element key =
     (case modifyElement opts of
        Some f \<Rightarrow> callModifyElement f element (lookupTranslation opts lang key) (metaOf opts lang key)
      | None \<Rightarrow> unitM ())"

text \<open>
  Lines 247-285, the callback of \<^verbatim>\<open>elements.forEach\<close>. \<^verbatim>\<open>if (key)\<close> is false for
  \<^verbatim>\<open>null\<close> and for the empty string.
\<close>

definition translateElement ::
  "('d, 'e) host \<Rightarrow> ('d, 'e, 'z) options_scheme \<Rightarrow> string \<Rightarrow> 'e \<Rightarrow> (unit, ('d, 'e) pass) prog" where
  "translateElement H opts lang element =
     bindM (callGetTranslationKey opts element) (\<lambda>key.
       if truthy key then
         bindM (warnMissingTranslation opts lang (orEmpty key)) (\<lambda>_.
         bindM (applyTranslation H opts lang element (orEmpty key)) (\<lambda>_.
         applyModifyElement opts lang element (orEmpty key)))
       else unitM ())"

section \<open>One document\<close>

definition applyModifyDocumentBefore ::
  "('d, 'e, 'z) options_scheme \<Rightarrow> string \<Rightarrow> (unit, ('d, 'e) pass) prog" where
  "applyModifyDocumentBefore opts lang =
     (case modifyDocumentBefore opts of
        None \<Rightarrow> unitM ()
      | Some f \<Rightarrow>
          (\<lambda>(d, tr). case f d (documentMetaOf opts lang) of
             Inl err \<Rightarrow> (Inl err, (d, tr @ [CallModifyDocumentBefore d (documentMetaOf opts lang)]))
           | Inr d' \<Rightarrow> (Inr (), (d', tr @ [CallModifyDocumentBefore d (documentMetaOf opts lang)]))))"

definition applyModifyDocumentAfter ::
  "('d, 'e, 'z) options_scheme \<Rightarrow> string \<Rightarrow> (unit, ('d, 'e) pass) prog" where
  "applyModifyDocumentAfter opts lang =
     (case modifyDocumentAfter opts of
        None \<Rightarrow> unitM ()
      | Some f \<Rightarrow>
          (\<lambda>(d, tr). case f d (documentMetaOf opts lang) of
             Inl err \<Rightarrow> (Inl err, (d, tr @ [CallModifyDocumentAfter d (documentMetaOf opts lang)]))
           | Inr d' \<Rightarrow> (Inr (), (d', tr @ [CallModifyDocumentAfter d (documentMetaOf opts lang)]))))"

definition selectElements ::
  "('d, 'e) host \<Rightarrow> ('d, 'e, 'z) options_scheme \<Rightarrow> ('e list, ('d, 'e) pass) prog" where
  "selectElements H opts = (\<lambda>(d, tr). (querySelectorAll H (selector opts) d, (d, tr)))"

definition serializeDocument :: "('d, 'e) host \<Rightarrow> (string, ('d, 'e) pass) prog" where
  "serializeDocument H = (\<lambda>(d, tr). (Inr (serialize H d), (d, tr @ [Serialize d])))"

text \<open>
  Lines 238-297: what the callback of \<^verbatim>\<open>htmlFilePaths.map\<close> does with the document
  of a fresh \<^verbatim>\<open>JSDOM\<close>, up to its serialization.
\<close>

definition translateDocument ::
  "('d, 'e) host \<Rightarrow> ('d, 'e, 'z) options_scheme \<Rightarrow> string \<Rightarrow> (string, ('d, 'e) pass) prog" where
  "translateDocument H opts lang =
     bindM (applyModifyDocumentBefore opts lang) (\<lambda>_.
     bindM (selectElements H opts) (\<lambda>elements.
     bindM (forEachM (translateElement H opts lang) elements) (\<lambda>_.
     bindM (applyModifyDocumentAfter opts lang) (\<lambda>_.
     serializeDocument H))))"

section \<open>Paths\<close>

text \<open>
  Node's \<^verbatim>\<open>path.posix\<close>: \<^verbatim>\<open>isAbsolute\<close>, \<^verbatim>\<open>dirname\<close>, \<^verbatim>\<open>basename\<close>,
  \<^verbatim>\<open>normalize\<close> and \<^verbatim>\<open>join\<close>, on strings. \<^verbatim>\<open>normalize\<close> drops empty and
  \<^verbatim>\<open>.\<close> segments and resolves \<^verbatim>\<open>..\<close> against the segment before it.
\<close>

definition path_isAbsolute :: "string \<Rightarrow> bool" where
  "path_isAbsolute p = (case p of [] \<Rightarrow> False | c # _ \<Rightarrow> c = CHR ''/'')"

definition path_dirname :: "string \<Rightarrow> string" where
  "path_dirname p =
     (case p of
        [] \<Rightarrow> ''.''
      | c # cs \<Rightarrow>
          (let hasRoot = (c = CHR ''/'');
               r = dropWhile (\<lambda>x. x \<noteq> CHR ''/'') (dropWhile (\<lambda>x. x = CHR ''/'') (rev cs))
           in if r = [] then (if hasRoot then ''/'' else ''.'')
              else if hasRoot \<and> length r = 1 then ''//''
              else c # rev (tl r)))"

definition path_basename :: "string \<Rightarrow> string" where
  "path_basename p =
     rev (takeWhile (\<lambda>x. x \<noteq> CHR ''/'') (dropWhile (\<lambda>x. x = CHR ''/'') (rev p)))"

fun splitSlash :: "string \<Rightarrow> string list" where
  "splitSlash [] = [[]]"
| "splitSlash (c # cs) =
     (if c = CHR ''/'' then [] # splitSlash cs
      else (case splitSlash cs of [] \<Rightarrow> [[c]] | s # ss \<Rightarrow> (c # s) # ss))"

fun joinSlash :: "string list \<Rightarrow> string" where
  "joinSlash [] = []"
| "joinSlash [s] = s"
| "joinSlash (s # t # ss) = s @ CHR ''/'' # joinSlash (t # ss)"

text \<open>\<open>normalizeSegments\<close> keeps the segments kept so far in reverse.\<close>

fun normalizeSegments :: "bool \<Rightarrow> string list \<Rightarrow> string list \<Rightarrow> string list" where
  "normalizeSegments allowAboveRoot res [] = rev res"
| "normalizeSegments allowAboveRoot res (s # ss) =
     (if s = [] \<or> s = ''.'' then normalizeSegments allowAboveRoot res ss
      else if s = ''..'' then
        (case res of
           [] \<Rightarrow> normalizeSegments allowAboveRoot (if allowAboveRoot then [''..''] else []) ss
         | r # rs \<Rightarrow>
             if r = ''..'' then
               normalizeSegments allowAboveRoot (if allowAboveRoot then ''..'' # res else res) ss
             else normalizeSegments allowAboveRoot rs ss)
      else normalizeSegments allowAboveRoot (s # res) ss)"

definition path_normalize :: "string \<Rightarrow> string" where
  "path_normalize p =
     (if p = [] then ''.''
      else
        (let isAbsolute = path_isAbsolute p;
             trailingSeparator = (last p = CHR ''/'');
             body = joinSlash (normalizeSegments (\<not> isAbsolute) [] (splitSlash p))
         in if body = [] then (if isAbsolute then ''/'' else if trailingSeparator then ''./'' else ''.'')
            else (if isAbsolute then ''/'' else []) @ body @ (if trailingSeparator then ''/'' else [])))"

definition path_join :: "string list \<Rightarrow> string" where
  "path_join args =
     (case filter (\<lambda>arg. arg \<noteq> []) args of
        [] \<Rightarrow> ''.''
      | parts \<Rightarrow> path_normalize (joinSlash parts))"

text \<open>Lines 301 and 307: the directory of a language and the page written into it.\<close>

definition languagePathOf :: "string \<Rightarrow> string \<Rightarrow> string" where
  "languagePathOf filePath lang = path_join [path_dirname filePath, lang]"

definition pagePathOf :: "string \<Rightarrow> string \<Rightarrow> string" where
  "pagePathOf filePath lang = path_join [languagePathOf filePath lang, path_basename filePath]"

section \<open>File operations\<close>

text \<open>
  \<^verbatim>\<open>readFileSync\<close>, \<^verbatim>\<open>mkdirSync\<close> with \<^verbatim>\<open>recursive: true\<close> and
  \<^verbatim>\<open>writeFileSync\<close>, with the errors of Node. The root and the working directory
  always exist. \<open>mkdirTargets\<close> lists a directory and the directories above it.
\<close>

definition isDirectory :: "filesystem \<Rightarrow> string \<Rightarrow> bool" where
  "isDirectory fsys p = (p \<in> dirs fsys \<or> p = ''/'' \<or> p = ''.'')"

definition readFileSync :: "string \<Rightarrow> filesystem \<Rightarrow> error + string" where
  "readFileSync p fsys =
     (case files fsys p of
        Some content \<Rightarrow> Inr content
      | None \<Rightarrow> Inl (FsError (if isDirectory fsys p then ''EISDIR'' else ''ENOENT'') p))"

definition mkdirTargets :: "string \<Rightarrow> string list" where
  "mkdirTargets p =
     (let q = path_normalize p;
          segs = filter (\<lambda>s. s \<noteq> []) (splitSlash q)
      in map (\<lambda>k. (if path_isAbsolute q then ''/'' else []) @ joinSlash (take k segs))
           [1 ..< Suc (length segs)])"

definition mkdirSync :: "string \<Rightarrow> filesystem \<Rightarrow> error + filesystem" where
  "mkdirSync p fsys =
     (if \<exists>q \<in> set (mkdirTargets p). files fsys q \<noteq> None then Inl (FsError ''EEXIST'' p)
      else Inr (fsys\<lparr>dirs := dirs fsys \<union> set (mkdirTargets p)\<rparr>))"

definition writeFileSync :: "string \<Rightarrow> string \<Rightarrow> filesystem \<Rightarrow> error + filesystem" where
  "writeFileSync p content fsys =
     (if isDirectory fsys p then Inl (FsError ''EISDIR'' p)
      else if \<not> isDirectory fsys (path_dirname p) then Inl (FsError ''ENOENT'' p)
      else Inr (fsys\<lparr>files := (files fsys)(p \<mapsto> content)\<rparr>))"

section \<open>The run\<close>

text \<open>
  The state of a run: the file system, the trace, and the local list
  \<^verbatim>\<open>htmlResultFilePaths\<close> of \<^verbatim>\<open>closeBundle\<close>. \<open>plugin\<close> holds the two variables
  that \<^verbatim>\<open>configResolved\<close> sets.
\<close>

record ('d, 'e) world =
  fs :: filesystem
  trace :: "('d, 'e) event list"
  htmlResultFilePaths :: "string list"

record plugin =
  outputPath :: string
  outDir :: string

record resolved_config =
  root :: string
  build_outDir :: string

definition configResolved :: "resolved_config \<Rightarrow> plugin" where
  "configResolved resolvedConfig =
     \<lparr>outputPath =
        (if path_isAbsolute (build_outDir resolvedConfig) then build_outDir resolvedConfig
         else path_join [root resolvedConfig, build_outDir resolvedConfig]),
      outDir = build_outDir resolvedConfig\<rparr>"

definition consoleLog :: "console_arg list \<Rightarrow> (unit, ('d, 'e) world) prog" where
  "consoleLog args = (\<lambda>w. (Inr (), w\<lparr>trace := trace w @ [ConsoleLog args]\<rparr>))"

text \<open>
  Lines 231-298, the callback of \<^verbatim>\<open>htmlFilePaths.map\<close>: the file is read and a new
  \<^verbatim>\<open>JSDOM\<close> made of its text on each call. The document is local to the call; of its
  effects, the trace stays.
\<close>

definition translateHtmlFile ::
  "('d, 'e) host \<Rightarrow> ('d, 'e, 'z) options_scheme \<Rightarrow> string \<Rightarrow> string \<Rightarrow>
     (string \<times> string, ('d, 'e) world) prog" where
  "translateHtmlFile H opts lang filePath =
     (\<lambda>w. case readFileSync filePath (fs w) of
        Inl err \<Rightarrow> (Inl err, w)
      | Inr html \<Rightarrow>
          (case translateDocument H opts lang (newJSDOM H html, trace w) of
             (Inl err, (d, tr)) \<Rightarrow> (Inl err, w\<lparr>trace := tr\<rparr>)
           | (Inr out, (d, tr)) \<Rightarrow> (Inr (filePath, out), w\<lparr>trace := tr\<rparr>)))"

text \<open>Lines 300-312, the callback of \<^verbatim>\<open>updatedHtmlFiles.forEach\<close>.\<close>

definition writeUpdatedHtmlFile :: "string \<Rightarrow> string \<times> string \<Rightarrow> (unit, ('d, 'e) world) prog" where
  "writeUpdatedHtmlFile lang = (\<lambda>(filePath, html) w.
     case mkdirSync (languagePathOf filePath lang) (fs w) of
       Inl err \<Rightarrow> (Inl err, w)
     | Inr fs1 \<Rightarrow>
         (case writeFileSync (pagePathOf filePath lang) html fs1 of
            Inl err \<Rightarrow> (Inl err, w\<lparr>fs := fs1\<rparr>)
          | Inr fs2 \<Rightarrow>
              (Inr (), w\<lparr>fs := fs2,
                 htmlResultFilePaths := htmlResultFilePaths w @ [pagePathOf filePath lang]\<rparr>)))"

text \<open>Lines 230-313, the callback of \<^verbatim>\<open>languages.forEach\<close>.\<close>

definition generateLanguage ::
  "('d, 'e) host \<Rightarrow> ('d, 'e, 'z) options_scheme \<Rightarrow> string list \<Rightarrow> string \<Rightarrow>
     (unit, ('d, 'e) world) prog" where
  "generateLanguage H opts htmlFilePaths lang =
     bindM (mapM (translateHtmlFile H opts lang) htmlFilePaths) (\<lambda>updatedHtmlFiles.
       forEachM (writeUpdatedHtmlFile lang) updatedHtmlFiles)"

text \<open>
  \<^verbatim>\<open>filePath.replace(outputPath, "").slice(1)\<close>: the first occurrence of the output
  path is removed, then the first character.
\<close>

fun replaceFirst :: "string \<Rightarrow> string \<Rightarrow> string" where
  "replaceFirst pat [] = []"
| "replaceFirst pat (c # cs) =
     (if pat \<noteq> [] \<and> take (length pat) (c # cs) = pat then drop (length pat) (c # cs)
      else c # replaceFirst pat cs)"

definition shownPath :: "plugin \<Rightarrow> string \<Rightarrow> console_arg list" where
  "shownPath pl filePath =
     [Str (colors_gray (outDir pl @ ''/'') @ colors_green (drop 1 (replaceFirst (outputPath pl) filePath)))]"

text \<open>Lines 204-206: the pattern, and the files that match it.\<close>

definition patternOf ::
  "plugin \<Rightarrow> ('d, 'e, 'z) options_scheme \<Rightarrow> (pattern, ('d, 'e) world) prog" where
  "patternOf pl opts =
     (case glob opts of
        Some g \<Rightarrow> (\<lambda>w. (g (outputPath pl), w\<lparr>trace := trace w @ [CallGlob (outputPath pl)]\<rparr>))
      | None \<Rightarrow> unitM (Pattern (outputPath pl @ ''/*.html'')))"

text \<open>Lines 203-324.\<close>

definition closeBundle ::
  "('d, 'e) host \<Rightarrow> plugin \<Rightarrow> ('d, 'e, 'z) options_scheme \<Rightarrow> (unit, ('d, 'e) world) prog" where
  "closeBundle H pl opts =
     bindM (patternOf pl opts) (\<lambda>pat w.
       let htmlFilePaths = globSync H pat (fs w) in
       if htmlFilePaths = [] then
         consoleLog [Str logPluginPrefix, Str ''HTML files not found by'', Pat pat, Str ''pattern''] w
       else
         bindM (consoleLog [Str logPluginPrefix, Str ''Result of scanning HTML files to generate'']) (\<lambda>_.
         bindM (forEachM (\<lambda>filePath. consoleLog (shownPath pl filePath)) htmlFilePaths) (\<lambda>_.
         bindM (\<lambda>w1. (Inr (), w1\<lparr>htmlResultFilePaths := []\<rparr>)) (\<lambda>_.
         bindM (forEachM (generateLanguage H opts htmlFilePaths) (languages opts)) (\<lambda>_.
         bindM (consoleLog [Str logPluginPrefix, Str ''Generated html files'']) (\<lambda>_.
         bindM (\<lambda>w2. forEachM (\<lambda>filePath. consoleLog (shownPath pl filePath))
                  (htmlResultFilePaths w2) w2) (\<lambda>_.
         unitM ())))))) w)"

section \<open>The order of the calls, as the specification words it\<close>






section \<open>The artifact of a source text\<close>

text \<open>
  What a pass makes of a text: the result of \<open>translateDocument\<close> on a new
  \<^verbatim>\<open>JSDOM\<close> of it.
\<close>

definition artifactOf ::
  "('d, 'e) host \<Rightarrow> ('d, 'e, 'z) options_scheme \<Rightarrow> string \<Rightarrow> string \<Rightarrow> error + string" where
  "artifactOf H opts lang html = fst (translateDocument H opts lang (newJSDOM H html, []))"

section \<open>A small DOM, to run the model on concrete inputs\<close>

text \<open>
  An instance of \<open>host\<close> for documents that are a sequence of elements without
  nesting, \<^verbatim>\<open><tag name="value">content</tag>\<close>. An element is referred to by its
  position. As \<^verbatim>\<open>jsdom\<close> does, the serializer wraps the elements in
  \<^verbatim>\<open>html\<close>, \<^verbatim>\<open>head\<close> and \<^verbatim>\<open>body\<close>, and the parser reads them back. The
  selector is an attribute selector \<^verbatim>\<open>[name]\<close>. \<open>flatHost found\<close> discovers those
  of the paths \<open>found\<close> that are files.
\<close>

record element_node =
  tagName :: string
  attributes :: "(string \<times> string) list"
  innerHTML :: string

record flat_document =
  htmlAttributes :: "(string \<times> string) list"
  bodyElements :: "element_node list"

datatype parser_mode = InText | InTag string | InContent string string | InEndTag

definition parseAttribute :: "string \<Rightarrow> string \<times> string" where
  "parseAttribute w =
     (takeWhile (\<lambda>c. c \<noteq> CHR ''='') w,
      filter (\<lambda>c. c \<noteq> CHR 0x22) (drop 1 (dropWhile (\<lambda>c. c \<noteq> CHR ''='') w)))"

fun splitSpace :: "string \<Rightarrow> string list" where
  "splitSpace [] = [[]]"
| "splitSpace (c # cs) =
     (if c = CHR '' '' then [] # splitSpace cs
      else (case splitSpace cs of [] \<Rightarrow> [[c]] | s # ss \<Rightarrow> (c # s) # ss))"

definition tagNameOf :: "string \<Rightarrow> string" where
  "tagNameOf raw = takeWhile (\<lambda>c. c \<noteq> CHR '' '') raw"

definition attributesOf :: "string \<Rightarrow> (string \<times> string) list" where
  "attributesOf raw = map parseAttribute (filter (\<lambda>w. w \<noteq> []) (drop 1 (splitSpace raw)))"

definition parseStep :: "parser_mode \<times> flat_document \<Rightarrow> char \<Rightarrow> parser_mode \<times> flat_document" where
  "parseStep st c =
     (case st of (mode, doc) \<Rightarrow>
        (case mode of
           InText \<Rightarrow> (if c = CHR ''<'' then (InTag [], doc) else (InText, doc))
         | InTag raw \<Rightarrow>
             (if c \<noteq> CHR ''>'' then (InTag (raw @ [c]), doc)
              else if tagNameOf raw = ''html'' then (InText, doc\<lparr>htmlAttributes := attributesOf raw\<rparr>)
              else if tagNameOf raw \<in> set [''head'', ''/head'', ''body'', ''/body'', ''/html'']
                then (InText, doc)
              else (InContent raw [], doc))
         | InContent raw content \<Rightarrow>
             (if c \<noteq> CHR ''<'' then (InContent raw (content @ [c]), doc)
              else (InEndTag, doc\<lparr>bodyElements := bodyElements doc @
                      [\<lparr>tagName = tagNameOf raw, attributes = attributesOf raw,
                        innerHTML = content\<rparr>]\<rparr>))
         | InEndTag \<Rightarrow> (if c = CHR ''>'' then (InText, doc) else (InEndTag, doc))))"

definition flatParse :: "string \<Rightarrow> flat_document" where
  "flatParse html = snd (foldl parseStep (InText, \<lparr>htmlAttributes = [], bodyElements = []\<rparr>) html)"

definition showAttributes :: "(string \<times> string) list \<Rightarrow> string" where
  "showAttributes as = concat (map (\<lambda>(n, v). '' '' @ n @ ''='' @ [CHR 0x22] @ v @ [CHR 0x22]) as)"

definition showElement :: "element_node \<Rightarrow> string" where
  "showElement el =
     ''<'' @ tagName el @ showAttributes (attributes el) @ ''>'' @ innerHTML el
       @ ''</'' @ tagName el @ ''>''"

definition flatSerialize :: "flat_document \<Rightarrow> string" where
  "flatSerialize doc =
     ''<html'' @ showAttributes (htmlAttributes doc) @ ''><head></head><body>''
       @ concat (map showElement (bodyElements doc)) @ ''</body></html>''"

definition flatSelect :: "string \<Rightarrow> flat_document \<Rightarrow> error + nat list" where
  "flatSelect sel doc =
     (if sel \<noteq> [] \<and> hd sel = CHR ''['' \<and> last sel = CHR '']'' then
        Inr (filter (\<lambda>i. map_of (attributes (bodyElements doc ! i)) (butlast (tl sel)) \<noteq> None)
               [0 ..< length (bodyElements doc)])
      else Inl (SyntaxError sel))"

definition flatSetInnerHTML :: "nat \<Rightarrow> string \<Rightarrow> flat_document \<Rightarrow> flat_document" where
  "flatSetInnerHTML i html doc =
     (if i < length (bodyElements doc)
      then doc\<lparr>bodyElements := (bodyElements doc)[i := (bodyElements doc ! i)\<lparr>innerHTML := html\<rparr>]\<rparr>
      else doc)"

definition flatGetAttribute :: "string \<Rightarrow> nat \<Rightarrow> flat_document \<Rightarrow> string option" where
  "flatGetAttribute name i doc =
     (if i < length (bodyElements doc) then map_of (attributes (bodyElements doc ! i)) name
      else None)"

definition flatRemoveAttribute :: "string \<Rightarrow> nat \<Rightarrow> flat_document \<Rightarrow> flat_document" where
  "flatRemoveAttribute name i doc =
     (if i < length (bodyElements doc)
      then doc\<lparr>bodyElements := (bodyElements doc)
             [i := (bodyElements doc ! i)\<lparr>attributes :=
                     filter (\<lambda>(n, v). n \<noteq> name) (attributes (bodyElements doc ! i))\<rparr>]\<rparr>
      else doc)"

definition flatHost :: "string list \<Rightarrow> (flat_document, nat) host" where
  "flatHost found =
     \<lparr>globSync = (\<lambda>pat fsys. filter (\<lambda>p. files fsys p \<noteq> None) found),
      newJSDOM = flatParse,
      querySelectorAll = flatSelect,
      setInnerHTML = flatSetInnerHTML,
      serialize = flatSerialize\<rparr>"

section \<open>Example inputs\<close>

text \<open>
  The first end-to-end example of the specification: one source
  \<^verbatim>\<open>/dist/index.html\<close>, the languages \<^verbatim>\<open>en\<close> and \<^verbatim>\<open>fr\<close>, the selector
  \<^verbatim>\<open>[data-i18n]\<close> and an extraction that reads the attribute.
\<close>

definition exampleHost :: "(flat_document, nat) host" where
  "exampleHost = flatHost [''/dist/index.html'']"

definition examplePlugin :: plugin where
  "examplePlugin = configResolved \<lparr>root = ''/'', build_outDir = ''dist''\<rparr>"

definition exampleOptions :: "(flat_document, nat) options" where
  "exampleOptions =
     \<lparr>glob = None,
      translations_option = [(''en'', [(''hello'', ''Hello'')]), (''fr'', [(''hello'', ''Bonjour'')])],
      selector = ''[data-i18n]'',
      getTranslationKey = (\<lambda>element doc. Inr (flatGetAttribute ''data-i18n'' element doc)),
      formatTranslation = None,
      modifyElement = None,
      modifyDocumentBefore = None,
      modifyDocumentAfter = None,
      verbose_option = None,
      missingTranslationVerboseFilter = None\<rparr>"

definition exampleWorld :: "(flat_document, nat) world" where
  "exampleWorld =
     \<lparr>fs = \<lparr>files = [''/dist/index.html'' \<mapsto> ''<div data-i18n=\"hello\">x</div>''],
            dirs = {''/dist''}\<rparr>,
      trace = [], htmlResultFilePaths = []\<rparr>"

definition emptyKeyDocument :: flat_document where
  "emptyKeyDocument = flatParse ''<p data-i18n=\"\">keep</p>''"




text \<open>
  The example configuration of the repository: \<^verbatim>\<open>modifyElement\<close> sets the inner
  content to \<^verbatim>\<open>value || ""\<close>, \<^verbatim>\<open>modifyDocumentAfter\<close> sets the \<^verbatim>\<open>lang\<close>
  attribute of the document element, and \<^verbatim>\<open>deleteSourceHtmlFiles: true\<close> is passed.
\<close>

definition flatSetLang :: "string \<Rightarrow> flat_document \<Rightarrow> flat_document" where
  "flatSetLang lang doc =
     doc\<lparr>htmlAttributes := (''lang'', lang) # filter (\<lambda>(n, v). n \<noteq> ''lang'') (htmlAttributes doc)\<rparr>"

definition deleteOptions :: "(flat_document, nat) example_options" where
  "deleteOptions =
     \<lparr>glob = Some (\<lambda>outputPath. Inr (Pattern (outputPath @ ''/*.html''))),
      translations_option =
        [(''en'', [(''hello'', ''Hello''), (''keyWithIcon'', ''With icon - {icon}'')]),
         (''fr'', [(''hello'', ''Bonjour'')])],
      selector = ''[data-i18n]'',
      getTranslationKey = (\<lambda>element doc. Inr (flatGetAttribute ''data-i18n'' element doc)),
      formatTranslation = None,
      modifyElement = Some (\<lambda>element v m doc. Inr (flatSetInnerHTML element (orEmpty v) doc)),
      modifyDocumentBefore = None,
      modifyDocumentAfter = Some (\<lambda>doc m. Inr (flatSetLang (documentLanguage m) doc)),
      verbose_option = None,
      missingTranslationVerboseFilter = None,
      deleteSourceHtmlFiles = True\<rparr>"

text \<open>
  A mutate hook that throws for \<^verbatim>\<open>fr\<close>:
  \<^verbatim>\<open>(element, value, meta) => { if (meta.language === "fr") throw new Error("boom") }\<close>.
\<close>

definition throwingOptions :: "(flat_document, nat) options" where
  "throwingOptions = exampleOptions\<lparr>modifyElement := Some (\<lambda>element v m doc.
     if metaLanguage m = ''fr'' then Inl (HookFailure ''boom'') else Inr doc)\<rparr>"


text \<open>
  Two sources of which one lies in the directory of a language: \<^verbatim>\<open>/d/a.html\<close> and
  \<^verbatim>\<open>/d/en/a.html\<close>, found by the pattern \<^verbatim>\<open>/d/**/*.html\<close>. The mutate hook
  removes the marker attribute from the translated element:
  \<^verbatim>\<open>(element) => element.removeAttribute("data-i18n")\<close>. The options are given for
  each English text of \<^verbatim>\<open>hello\<close>.
\<close>

definition overlapHost :: "(flat_document, nat) host" where
  "overlapHost = flatHost [''/d/a.html'', ''/d/en/a.html'']"

definition overlapPlugin :: plugin where
  "overlapPlugin = configResolved \<lparr>root = ''/'', build_outDir = ''d''\<rparr>"

definition overlapOptions :: "string \<Rightarrow> (flat_document, nat) options" where
  "overlapOptions hello = exampleOptions
     \<lparr>glob := Some (\<lambda>outputPath. Inr (Pattern (outputPath @ ''/**/*.html''))),
      translations_option :=
        [(''en'', [(''hello'', hello), (''bye'', ''Bye'')]),
         (''fr'', [(''hello'', ''Bonjour''), (''bye'', ''Salut'')])],
      modifyElement := Some (\<lambda>element v m doc. Inr (flatRemoveAttribute ''data-i18n'' element doc))\<rparr>"

definition overlapWorld :: "(flat_document, nat) world" where
  "overlapWorld =
     \<lparr>fs = \<lparr>files = [''/d/a.html'' \<mapsto> ''<div data-i18n=\"hello\">x</div>'',
                     ''/d/en/a.html'' \<mapsto> ''<p data-i18n=\"bye\">y</p>''],
            dirs = {''/d'', ''/d/en''}\<rparr>,
      trace = [], htmlResultFilePaths = []\<rparr>"

section \<open>Notions used in the proofs\<close>

text \<open>
  \<open>grows w w'\<close>: every file and directory of \<open>w\<close> is one of \<open>w'\<close>.
  \<open>startOfRun\<close> and \<open>endOfRun\<close> are the state after the lines printed before and
  after the loop over the languages.
\<close>


text \<open>
  \<open>appending m\<close>: the step \<open>m\<close> only appends to the trace, and what it does and
  appends does not depend on the trace so far. \<open>renderedFile\<close>: a file with the
  artifact of its text.
\<close>

definition appending :: "('a, ('d, 'e) pass) prog \<Rightarrow> bool" where
  "appending m = (\<forall>d tr. m (d, tr) = (case m (d, []) of (r, (d', evs)) \<Rightarrow> (r, (d', tr @ evs))))"

definition renderedFile ::
  "('d, 'e) host \<Rightarrow> ('d, 'e, 'z) options_scheme \<Rightarrow> string \<Rightarrow> (string \<rightharpoonup> string) \<Rightarrow> string \<Rightarrow>
     string \<times> string" where
  "renderedFile H opts lang m F =
     (F, case m F of
           None \<Rightarrow> []
         | Some html \<Rightarrow> (case artifactOf H opts lang html of Inl err \<Rightarrow> [] | Inr out \<Rightarrow> out))"

definition grows :: "('d, 'e) world \<Rightarrow> ('d, 'e) world \<Rightarrow> bool" where
  "grows w w' = (dom (files (fs w)) \<subseteq> dom (files (fs w')) \<and> dirs (fs w) \<subseteq> dirs (fs w'))"

definition startOfRun :: "plugin \<Rightarrow> string list \<Rightarrow> ('d, 'e) world \<Rightarrow> ('d, 'e) world" where
  "startOfRun pl Fs w =
     w\<lparr>trace := trace w @
          ConsoleLog [Str logPluginPrefix, Str ''Result of scanning HTML files to generate'']
            # map (\<lambda>F. ConsoleLog (shownPath pl F)) Fs,
       htmlResultFilePaths := []\<rparr>"

definition endOfRun :: "plugin \<Rightarrow> ('d, 'e) world \<Rightarrow> ('d, 'e) world" where
  "endOfRun pl w =
     w\<lparr>trace := trace w @
          ConsoleLog [Str logPluginPrefix, Str ''Generated html files'']
            # map (\<lambda>F. ConsoleLog (shownPath pl F)) (htmlResultFilePaths w)\<rparr>"

section \<open>Sequencing: when a step returns and when it throws\<close>

lemma bindM_Inr_iff:
  "bindM m f s = (Inr y, s') \<longleftrightarrow> (\<exists>x s1. m s = (Inr x, s1) \<and> f x s1 = (Inr y, s'))"
  by (auto simp: bindM_def split: prod.splits sum.splits)

lemma bindM_Inl_iff:
  "bindM m f s = (Inl err, s') \<longleftrightarrow>
     (m s = (Inl err, s') \<or> (\<exists>x s1. m s = (Inr x, s1) \<and> f x s1 = (Inl err, s')))"
  by (auto simp: bindM_def split: prod.splits sum.splits)

lemma bindM_Inr: "m s = (Inr x, s1) \<Longrightarrow> bindM m f s = f x s1"
  by (simp add: bindM_def)

lemma bindM_Inl: "m s = (Inl err, s1) \<Longrightarrow> bindM m f s = (Inl err, s1)"
  by (simp add: bindM_def)

lemma forEachM_append:
  "forEachM f (xs @ ys) = bindM (forEachM f xs) (\<lambda>_. forEachM f ys)"
  by (induction xs) (auto simp: bindM_def unitM_def fun_eq_iff split: prod.splits sum.splits)

lemma mapM_append:
  "mapM f (xs @ ys) = bindM (mapM f xs) (\<lambda>as. bindM (mapM f ys) (\<lambda>bs. unitM (as @ bs)))"
  by (induction xs) (auto simp: bindM_def unitM_def fun_eq_iff split: prod.splits sum.splits)

section \<open>What a run does to the file system\<close>

lemma mkdirSync_Inr:
  "mkdirSync p fsys = Inr fsys' \<Longrightarrow>
     files fsys' = files fsys \<and> dirs fsys' = dirs fsys \<union> set (mkdirTargets p)"
  by (auto simp: mkdirSync_def split: if_splits)

lemma writeFileSync_Inr:
  "writeFileSync p content fsys = Inr fsys' \<Longrightarrow>
     files fsys' = (files fsys)(p \<mapsto> content) \<and> dirs fsys' = dirs fsys"
  by (auto simp: writeFileSync_def split: if_splits)


lemma consoleLog_forEachM:
  "forEachM (\<lambda>x. consoleLog (g x)) xs w =
     (Inr (), w\<lparr>trace := trace w @ map (\<lambda>x. ConsoleLog (g x)) xs\<rparr>)"
  by (induction xs arbitrary: w) (simp_all add: unitM_def bindM_def consoleLog_def)

lemma consoleLog_apply:
  "consoleLog args w = (Inr (), w\<lparr>trace := trace w @ [ConsoleLog args]\<rparr>)"
  by (simp add: consoleLog_def)

lemma translateHtmlFile_frame:
  "translateHtmlFile H opts lang filePath w = (r, w') \<Longrightarrow>
     fs w' = fs w \<and> htmlResultFilePaths w' = htmlResultFilePaths w"
  by (auto simp: translateHtmlFile_def split: sum.splits prod.splits)

lemma translateHtmlFile_Inr:
  "translateHtmlFile H opts lang filePath w = (Inr (F, out), w') \<Longrightarrow>
     F = filePath \<and> files (fs w) filePath \<noteq> None"
  by (auto simp: translateHtmlFile_def readFileSync_def split: sum.splits prod.splits option.splits)

lemma mapM_translateHtmlFile_frame:
  "mapM (translateHtmlFile H opts lang) Fs w = (r, w') \<Longrightarrow>
     fs w' = fs w \<and> htmlResultFilePaths w' = htmlResultFilePaths w"
proof (induction Fs arbitrary: w r w')
  case Nil
  then show ?case by (simp add: unitM_def)
next
  case (Cons F Fs)
  obtain r1 w1 where s1: "translateHtmlFile H opts lang F w = (r1, w1)"
    by (cases "translateHtmlFile H opts lang F w")
  note f1 = translateHtmlFile_frame [OF s1]
  show ?case
  proof (cases r1)
    case (Inl err)
    with Cons.prems s1 f1 show ?thesis by (simp add: bindM_def)
  next
    case (Inr y)
    obtain r2 w2 where s2: "mapM (translateHtmlFile H opts lang) Fs w1 = (r2, w2)"
      by (cases "mapM (translateHtmlFile H opts lang) Fs w1")
    from Cons.IH [OF s2] f1 Cons.prems s1 s2 Inr show ?thesis
      by (auto simp: bindM_def unitM_def split: sum.splits)
  qed
qed

lemma mapM_translateHtmlFile_Inr:
  "mapM (translateHtmlFile H opts lang) Fs w = (Inr updated, w') \<Longrightarrow>
     map fst updated = Fs \<and> (\<forall>F \<in> set Fs. files (fs w) F \<noteq> None)"
proof (induction Fs arbitrary: w updated w')
  case Nil
  then show ?case by (simp add: unitM_def)
next
  case (Cons F Fs)
  from Cons.prems obtain y w1 ys where
    s1: "translateHtmlFile H opts lang F w = (Inr y, w1)" and
    s2: "mapM (translateHtmlFile H opts lang) Fs w1 = (Inr ys, w')" and
    u: "updated = y # ys"
    by (auto simp: bindM_Inr_iff unitM_def)
  from translateHtmlFile_Inr [of H opts lang F w "fst y" "snd y" w1] s1
  have y: "fst y = F" "files (fs w) F \<noteq> None" by simp_all
  from translateHtmlFile_frame [OF s1] have "fs w1 = fs w" by simp
  with Cons.IH [OF s2] y u show ?case by simp
qed

lemma writeUpdatedHtmlFile_Inr:
  "writeUpdatedHtmlFile lang (F, html) w = (Inr (), w') \<Longrightarrow>
     files (fs w') = (files (fs w))(pagePathOf F lang \<mapsto> html)
     \<and> dirs (fs w') = dirs (fs w) \<union> set (mkdirTargets (languagePathOf F lang))
     \<and> htmlResultFilePaths w' = htmlResultFilePaths w @ [pagePathOf F lang]
     \<and> trace w' = trace w"
  by (auto simp: writeUpdatedHtmlFile_def split: sum.splits dest!: mkdirSync_Inr writeFileSync_Inr)

lemma writeUpdatedHtmlFile_grows:
  "writeUpdatedHtmlFile lang u w = (r, w') \<Longrightarrow>
     dom (files (fs w)) \<subseteq> dom (files (fs w')) \<and> dirs (fs w) \<subseteq> dirs (fs w') \<and> trace w' = trace w"
  by (cases u) (auto simp: writeUpdatedHtmlFile_def split: sum.splits dest!: mkdirSync_Inr writeFileSync_Inr)

lemma grows_refl: "grows w w"
  by (simp add: grows_def)

lemma grows_trans: "grows a b \<Longrightarrow> grows b c \<Longrightarrow> grows a c"
  unfolding grows_def by (metis subset_trans)

lemma writeUpdatedHtmlFile_grows_world:
  "writeUpdatedHtmlFile lang u w = (r, w') \<Longrightarrow> grows w w'"
  using writeUpdatedHtmlFile_grows [of lang u w r w'] by (simp add: grows_def)

lemma forEachM_invariant:
  assumes step: "\<And>x s r s'. f x s = (r, s') \<Longrightarrow> R s s'"
    and refl: "\<And>s. R s s"
    and trans: "\<And>a b c. R a b \<Longrightarrow> R b c \<Longrightarrow> R a c"
  shows "forEachM f xs s = (r, s') \<Longrightarrow> R s s'"
proof (induction xs arbitrary: s r s')
  case Nil
  then show ?case using refl by (simp add: unitM_def)
next
  case (Cons x xs)
  obtain r1 s1 where s1: "f x s = (r1, s1)" by (cases "f x s")
  show ?case
  proof (cases r1)
    case (Inl err)
    with Cons.prems s1 have "s' = s1" by (simp add: bindM_def)
    with step [OF s1] show ?thesis by simp
  next
    case (Inr y)
    with Cons.prems s1 have "forEachM f xs s1 = (r, s')" by (simp add: bindM_def)
    from trans [OF step [OF s1] Cons.IH [OF this]] show ?thesis .
  qed
qed

lemma generateLanguage_grows:
  assumes "generateLanguage H opts Fs lang w = (r, w')"
  shows "grows w w'"
proof -
  obtain r1 w1 where s1: "mapM (translateHtmlFile H opts lang) Fs w = (r1, w1)"
    by (cases "mapM (translateHtmlFile H opts lang) Fs w")
  from mapM_translateHtmlFile_frame [OF s1] have g1: "grows w w1"
    by (simp add: grows_def)
  show ?thesis
  proof (cases r1)
    case (Inl err)
    with assms s1 g1 show ?thesis by (simp add: generateLanguage_def bindM_def)
  next
    case (Inr updated)
    with assms s1 have "forEachM (writeUpdatedHtmlFile lang) updated w1 = (r, w')"
      by (simp add: generateLanguage_def bindM_def)
    then have "grows w1 w'"
      by (rule forEachM_invariant [where R = grows, rotated -1])
        (erule writeUpdatedHtmlFile_grows_world, rule grows_refl, erule grows_trans, assumption)
    with g1 show ?thesis by (rule grows_trans)
  qed
qed

lemma languages_grow:
  assumes "forEachM (generateLanguage H opts Fs) Ls w = (r, w')"
  shows "grows w w'"
  using assms
  by (rule forEachM_invariant [where R = grows, rotated -1])
    (erule generateLanguage_grows, rule grows_refl, erule grows_trans, assumption)

lemma closeBundle_found:
  assumes "patternOf pl opts w = (Inr pat, w1)"
    and "globSync H pat (fs w1) = Fs" and "Fs \<noteq> []"
  shows "closeBundle H pl opts w =
     (case forEachM (generateLanguage H opts Fs) (languages opts) (startOfRun pl Fs w1) of
        (Inl err, w2) \<Rightarrow> (Inl err, w2)
      | (Inr u, w2) \<Rightarrow> (Inr (), endOfRun pl w2))"
  using assms
  by (auto simp: closeBundle_def bindM_def consoleLog_forEachM consoleLog_apply unitM_def
      startOfRun_def endOfRun_def split: prod.splits sum.splits)

lemma patternOf_frame:
  "patternOf pl opts w = (r, w1) \<Longrightarrow> fs w1 = fs w \<and> htmlResultFilePaths w1 = htmlResultFilePaths w"
  by (auto simp: patternOf_def unitM_def split: option.splits)

lemma closeBundle_grows:
  assumes "closeBundle H pl opts w = (r, w')"
  shows "grows w w'"
proof -
  obtain rp w1 where p: "patternOf pl opts w = (rp, w1)" by (cases "patternOf pl opts w")
  from patternOf_frame [OF p] have g1: "grows w w1" by (simp add: grows_def)
  show ?thesis
  proof (cases rp)
    case (Inl err)
    with assms p g1 show ?thesis by (simp add: closeBundle_def bindM_def)
  next
    case (Inr pat)
    show ?thesis
    proof (cases "globSync H pat (fs w1) = []")
      case True
      with assms p Inr g1 show ?thesis
        by (auto simp: closeBundle_def bindM_def consoleLog_def grows_def)
    next
      case False
      obtain r2 w2 where l: "forEachM (generateLanguage H opts (globSync H pat (fs w1))) (languages opts)
          (startOfRun pl (globSync H pat (fs w1)) w1) = (r2, w2)"
        by (cases "forEachM (generateLanguage H opts (globSync H pat (fs w1))) (languages opts)
          (startOfRun pl (globSync H pat (fs w1)) w1)")
      from languages_grow [OF l] have "grows (startOfRun pl (globSync H pat (fs w1)) w1) w2" .
      then have g2: "grows w1 w2" by (simp add: grows_def startOfRun_def)
      from closeBundle_found [OF p [unfolded Inr] refl False] l assms
      have "grows w2 w'" by (auto simp: grows_def endOfRun_def split: sum.splits)
      with g1 g2 show ?thesis by (blast intro: grows_trans)
    qed
  qed
qed

section \<open>Writes as updates of a map\<close>

lemma foldl_upd_other:
  "(\<forall>u \<in> set us. k u \<noteq> p) \<Longrightarrow> foldl (\<lambda>m u. m(k u \<mapsto> v u)) m us p = m p"
  by (induction us arbitrary: m) auto

lemma foldl_upd_same:
  "u0 \<in> set us \<Longrightarrow> k u0 = p \<Longrightarrow> (\<forall>u \<in> set us. k u = p \<longrightarrow> v u = c) \<Longrightarrow>
     foldl (\<lambda>m u. m(k u \<mapsto> v u)) m us p = Some c"
proof (induction us arbitrary: m rule: rev_induct)
  case Nil
  then show ?case by simp
next
  case (snoc u us)
  show ?case
  proof (cases "k u = p")
    case True
    with snoc.prems show ?thesis by simp
  next
    case False
    with snoc.prems have "u0 \<in> set us" by auto
    from snoc.IH [OF this snoc.prems(2)] snoc.prems(3) False show ?thesis by simp
  qed
qed

lemma foldl_upd_dom:
  "u0 \<in> set us \<Longrightarrow> foldl (\<lambda>m u. m(k u \<mapsto> v u)) m us (k u0) \<noteq> None"
proof (induction us arbitrary: m rule: rev_induct)
  case Nil
  then show ?case by simp
next
  case (snoc u us)
  then show ?case by (cases "k u = k u0") auto
qed

lemma forEachM_write_Inr:
  "forEachM (writeUpdatedHtmlFile lang) updated w = (Inr (), w') \<Longrightarrow>
     files (fs w') = foldl (\<lambda>m u. m(pagePathOf (fst u) lang \<mapsto> snd u)) (files (fs w)) updated
     \<and> dirs (fs w') = dirs (fs w) \<union> (\<Union>u \<in> set updated. set (mkdirTargets (languagePathOf (fst u) lang)))
     \<and> htmlResultFilePaths w' = htmlResultFilePaths w @ map (\<lambda>u. pagePathOf (fst u) lang) updated
     \<and> trace w' = trace w"
proof (induction updated arbitrary: w)
  case Nil
  then show ?case by (simp add: unitM_def)
next
  case (Cons u us)
  from Cons.prems obtain w1 where
    s1: "writeUpdatedHtmlFile lang u w = (Inr (), w1)" and
    s2: "forEachM (writeUpdatedHtmlFile lang) us w1 = (Inr (), w')"
    by (auto simp: bindM_Inr_iff)
  from writeUpdatedHtmlFile_Inr [of lang "fst u" "snd u" w w1] s1
  have one: "files (fs w1) = (files (fs w))(pagePathOf (fst u) lang \<mapsto> snd u)"
     "dirs (fs w1) = dirs (fs w) \<union> set (mkdirTargets (languagePathOf (fst u) lang))"
     "htmlResultFilePaths w1 = htmlResultFilePaths w @ [pagePathOf (fst u) lang]"
     "trace w1 = trace w"
    by simp_all
  from Cons.IH [OF s2] one show ?case by auto
qed

lemma generateLanguage_Inr:
  assumes "generateLanguage H opts Fs lang w = (Inr (), w')"
  shows "\<exists>updated w1. mapM (translateHtmlFile H opts lang) Fs w = (Inr updated, w1)
           \<and> fs w1 = fs w \<and> htmlResultFilePaths w1 = htmlResultFilePaths w
           \<and> map fst updated = Fs \<and> (\<forall>F \<in> set Fs. files (fs w) F \<noteq> None)
           \<and> forEachM (writeUpdatedHtmlFile lang) updated w1 = (Inr (), w')"
proof -
  from assms obtain updated w1 where
    s1: "mapM (translateHtmlFile H opts lang) Fs w = (Inr updated, w1)" and
    s2: "forEachM (writeUpdatedHtmlFile lang) updated w1 = (Inr (), w')"
    by (auto simp: generateLanguage_def bindM_Inr_iff)
  from mapM_translateHtmlFile_frame [OF s1] mapM_translateHtmlFile_Inr [OF s1] s1 s2
  show ?thesis by blast
qed

lemma generateLanguage_written:
  assumes "generateLanguage H opts Fs lang w = (Inr (), w')"
  shows "htmlResultFilePaths w' = htmlResultFilePaths w @ map (\<lambda>F. pagePathOf F lang) Fs
    \<and> (\<forall>F \<in> set Fs. files (fs w') (pagePathOf F lang) \<noteq> None
          \<and> set (mkdirTargets (languagePathOf F lang)) \<subseteq> dirs (fs w')
          \<and> files (fs w) F \<noteq> None)"
proof -
  from generateLanguage_Inr [OF assms] obtain updated w1 where
    u: "map fst updated = Fs" and f: "fs w1 = fs w" "htmlResultFilePaths w1 = htmlResultFilePaths w"
    and src: "\<forall>F \<in> set Fs. files (fs w) F \<noteq> None"
    and wr: "forEachM (writeUpdatedHtmlFile lang) updated w1 = (Inr (), w')"
    by blast
  note eff = forEachM_write_Inr [OF wr]
  have paths: "map (\<lambda>u. pagePathOf (fst u) lang) updated = map (\<lambda>F. pagePathOf F lang) Fs"
    using u by (auto simp: map_eq_conv [symmetric] comp_def simp del: map_eq_conv dest: arg_cong [where f = "map (\<lambda>F. pagePathOf F lang)"])
  have each: "files (fs w') (pagePathOf F lang) \<noteq> None
      \<and> set (mkdirTargets (languagePathOf F lang)) \<subseteq> dirs (fs w')" if "F \<in> set Fs" for F
  proof -
    from that u obtain u0 where u0: "u0 \<in> set updated" "fst u0 = F" by force
    from foldl_upd_dom [OF u0(1), of "\<lambda>u. pagePathOf (fst u) lang" snd "files (fs w1)"] eff u0
    show ?thesis by auto
  qed
  from eff paths f each src show ?thesis by simp
qed

lemma languages_written:
  "forEachM (generateLanguage H opts Fs) Ls w = (Inr (), w') \<Longrightarrow>
     htmlResultFilePaths w' = htmlResultFilePaths w @ concat (map (\<lambda>L. map (\<lambda>F. pagePathOf F L) Fs) Ls)
     \<and> (\<forall>L \<in> set Ls. \<forall>F \<in> set Fs. files (fs w') (pagePathOf F L) \<noteq> None
           \<and> set (mkdirTargets (languagePathOf F L)) \<subseteq> dirs (fs w'))
     \<and> (Ls \<noteq> [] \<longrightarrow> (\<forall>F \<in> set Fs. files (fs w) F \<noteq> None))"
proof (induction Ls arbitrary: w)
  case Nil
  then show ?case by (simp add: unitM_def)
next
  case (Cons L Ls)
  from Cons.prems obtain w1 where
    s1: "generateLanguage H opts Fs L w = (Inr (), w1)" and
    s2: "forEachM (generateLanguage H opts Fs) Ls w1 = (Inr (), w')"
    by (auto simp: bindM_Inr_iff)
  note one = generateLanguage_written [OF s1]
  note rest = Cons.IH [OF s2]
  from languages_grow [OF s2] have g: "grows w1 w'" .
  have keep: "files (fs w') (pagePathOf F L) \<noteq> None
      \<and> set (mkdirTargets (languagePathOf F L)) \<subseteq> dirs (fs w')" if "F \<in> set Fs" for F
    using one that g unfolding grows_def by (meson domIff subsetD subset_trans)
  from one rest keep show ?case by auto
qed

lemma examplePlugin_outputPath: "outputPath examplePlugin = ''/dist''"
  by code_simp

lemma example_pagePaths:
  "pagePathOf ''/dist/index.html'' ''en'' = ''/dist/en/index.html''"
  "pagePathOf ''/dist/index.html'' ''fr'' = ''/dist/fr/index.html''"
  by code_simp+

section \<open>Where an exception goes\<close>

lemma forEachM_throw:
  "forEachM f xs s = (Inr (), s1) \<Longrightarrow> f x s1 = (Inl err, s2) \<Longrightarrow>
     forEachM f (xs @ x # ys) s = (Inl err, s2)"
  by (simp add: forEachM_append bindM_def)

lemma mapM_throw:
  "mapM f xs s = (Inr ys, s1) \<Longrightarrow> f x s1 = (Inl err, s2) \<Longrightarrow>
     mapM f (xs @ x # zs) s = (Inl err, s2)"
  by (simp add: mapM_append bindM_def)

lemma filter_throws:
  "\<not> truthy (lookupTranslation opts L K) \<Longrightarrow> verboseOf opts \<Longrightarrow>
     filterOf opts K L (translationsOf opts L) = Inl err \<Longrightarrow>
     fst (warnMissingTranslation opts L K s) = Inl err"
  by (cases s) (simp add: warnMissingTranslation_def callFilter_def bindM_def)

lemma format_throws:
  "formatTranslation opts = Some f \<Longrightarrow>
     f (lookupTranslation opts L K) (metaOf opts L K) = Inl err \<Longrightarrow>
     fst (applyTranslation H opts L e K s) = Inl err"
  by (cases s) (simp add: applyTranslation_def callFormatTranslation_def bindM_def)

lemma modifyElement_throws:
  "modifyElement opts = Some g \<Longrightarrow>
     g e (lookupTranslation opts L K) (metaOf opts L K) (fst s) = Inl err \<Longrightarrow>
     fst (applyModifyElement opts L e K s) = Inl err"
  by (cases s) (simp add: applyModifyElement_def callModifyElement_def)

lemma modifyDocumentBefore_throws:
  "modifyDocumentBefore opts = Some b \<Longrightarrow> b (fst s) (documentMetaOf opts L) = Inl err \<Longrightarrow>
     fst (applyModifyDocumentBefore opts L s) = Inl err"
  by (cases s) (simp add: applyModifyDocumentBefore_def)

lemma modifyDocumentAfter_throws:
  "modifyDocumentAfter opts = Some a \<Longrightarrow> a (fst s) (documentMetaOf opts L) = Inl err \<Longrightarrow>
     fst (applyModifyDocumentAfter opts L s) = Inl err"
  by (cases s) (simp add: applyModifyDocumentAfter_def)

lemma warn_throws_in_element:
  "getTranslationKey opts e d0 = Inr (Some K) \<Longrightarrow> K \<noteq> [] \<Longrightarrow>
     warnMissingTranslation opts L K (d0, tr0 @ [CallGetTranslationKey e]) = (Inl err, s1) \<Longrightarrow>
     translateElement H opts L e (d0, tr0) = (Inl err, s1)"
  by (simp add: translateElement_def callGetTranslationKey_def bindM_def truthy_def orEmpty_def)

lemma apply_throws_in_element:
  "getTranslationKey opts e d0 = Inr (Some K) \<Longrightarrow> K \<noteq> [] \<Longrightarrow>
     warnMissingTranslation opts L K (d0, tr0 @ [CallGetTranslationKey e]) = (Inr (), s1) \<Longrightarrow>
     applyTranslation H opts L e K s1 = (Inl err, s2) \<Longrightarrow>
     translateElement H opts L e (d0, tr0) = (Inl err, s2)"
  by (simp add: translateElement_def callGetTranslationKey_def bindM_def truthy_def orEmpty_def)

lemma modify_throws_in_element:
  "getTranslationKey opts e d0 = Inr (Some K) \<Longrightarrow> K \<noteq> [] \<Longrightarrow>
     warnMissingTranslation opts L K (d0, tr0 @ [CallGetTranslationKey e]) = (Inr (), s1) \<Longrightarrow>
     applyTranslation H opts L e K s1 = (Inr (), s2) \<Longrightarrow>
     applyModifyElement opts L e K s2 = (Inl err, s3) \<Longrightarrow>
     translateElement H opts L e (d0, tr0) = (Inl err, s3)"
  by (simp add: translateElement_def callGetTranslationKey_def bindM_def truthy_def orEmpty_def)

lemma extraction_throws_in_element:
  "getTranslationKey opts e d0 = Inl err \<Longrightarrow>
     translateElement H opts L e (d0, tr0) = (Inl err, (d0, tr0 @ [CallGetTranslationKey e]))"
  by (simp add: translateElement_def callGetTranslationKey_def bindM_def)

lemma before_throws_in_document:
  "applyModifyDocumentBefore opts L s = (Inl err, s') \<Longrightarrow>
     translateDocument H opts L s = (Inl err, s')"
  by (simp add: translateDocument_def bindM_def)

lemma element_throws_in_document:
  "applyModifyDocumentBefore opts L s = (Inr (), s0) \<Longrightarrow>
     selectElements H opts s0 = (Inr (es1 @ e # es2), s0) \<Longrightarrow>
     forEachM (translateElement H opts L) es1 s0 = (Inr (), s1) \<Longrightarrow>
     translateElement H opts L e s1 = (Inl err, s2) \<Longrightarrow>
     translateDocument H opts L s = (Inl err, s2)"
  by (simp add: translateDocument_def forEachM_append bindM_def)

lemma after_throws_in_document:
  "applyModifyDocumentBefore opts L s = (Inr (), s0) \<Longrightarrow>
     selectElements H opts s0 = (Inr es, s0) \<Longrightarrow>
     forEachM (translateElement H opts L) es s0 = (Inr (), s1) \<Longrightarrow>
     applyModifyDocumentAfter opts L s1 = (Inl err, s2) \<Longrightarrow>
     translateDocument H opts L s = (Inl err, s2)"
  by (simp add: translateDocument_def bindM_def)

lemma document_throws_in_file:
  "readFileSync F (fs w3) = Inr html \<Longrightarrow>
     translateDocument H opts L (newJSDOM H html, trace w3) = (Inl err, (d, tr)) \<Longrightarrow>
     translateHtmlFile H opts L F w3 = (Inl err, w3\<lparr>trace := tr\<rparr>)"
  by (simp add: translateHtmlFile_def)

lemma glob_throws_in_run:
  "patternOf pl opts w = (Inl err, w1) \<Longrightarrow> closeBundle H pl opts w = (Inl err, w1)"
  by (simp add: closeBundle_def bindM_def)

lemma file_throws_in_run:
  assumes "patternOf pl opts w = (Inr pat, w1)"
    and "globSync H pat (fs w1) = Fs1 @ F # Fs2"
    and "languages opts = Ls1 @ L # Ls2"
    and "forEachM (generateLanguage H opts (Fs1 @ F # Fs2)) Ls1 (startOfRun pl (Fs1 @ F # Fs2) w1)
           = (Inr (), w2)"
    and "mapM (translateHtmlFile H opts L) Fs1 w2 = (Inr updated, w3)"
    and "translateHtmlFile H opts L F w3 = (Inl err, w4)"
  shows "closeBundle H pl opts w = (Inl err, w4)
    \<and> fs w4 = fs w2 \<and> htmlResultFilePaths w4 = htmlResultFilePaths w2"
proof -
  from mapM_throw [OF assms(5,6)]
  have m: "mapM (translateHtmlFile H opts L) (Fs1 @ F # Fs2) w2 = (Inl err, w4)" .
  then have g: "generateLanguage H opts (Fs1 @ F # Fs2) L w2 = (Inl err, w4)"
    by (simp add: generateLanguage_def bindM_def)
  from forEachM_throw [OF assms(4) g]
  have "forEachM (generateLanguage H opts (Fs1 @ F # Fs2)) (languages opts)
          (startOfRun pl (Fs1 @ F # Fs2) w1) = (Inl err, w4)"
    by (simp add: assms(3))
  with closeBundle_found [OF assms(1,2)] have run: "closeBundle H pl opts w = (Inl err, w4)"
    by simp
  from mapM_translateHtmlFile_frame [OF m] run show ?thesis by simp
qed

section \<open>The trace of a pass\<close>















section \<open>A pass is a function of the text\<close>

lemma appendingI:
  "(\<And>d tr. m (d, tr) = (case m (d, []) of (r, (d', evs)) \<Rightarrow> (r, (d', tr @ evs)))) \<Longrightarrow> appending m"
  unfolding appending_def by blast

lemma appendingD:
  assumes "appending m" and "m (d, []) = (r, (d', evs))"
  shows "m (d, tr) = (r, (d', tr @ evs))"
proof -
  from assms(1) have "m (d, tr) = (case m (d, []) of (r, (d', evs)) \<Rightarrow> (r, (d', tr @ evs)))"
    unfolding appending_def by blast
  also have "\<dots> = (r, (d', tr @ evs))"
    by (simp only: assms(2) prod.case)
  finally show ?thesis .
qed

lemma appending_unitM: "appending (unitM x)"
  by (simp add: appending_def unitM_def)

lemma appending_bindM:
  assumes "appending m" and "\<And>x. appending (f x)"
  shows "appending (bindM m f)"
proof (rule appendingI)
  fix d tr
  obtain r d1 evs1 where m0: "m (d, []) = (r, (d1, evs1))"
    by (cases "m (d, [])" rule: prod_cases3)
  from appendingD [OF assms(1) m0] have m1: "m (d, tr) = (r, (d1, tr @ evs1))" .
  show "bindM m f (d, tr) = (case bindM m f (d, []) of (r, (d', evs)) \<Rightarrow> (r, (d', tr @ evs)))"
  proof (cases r)
    case (Inl err)
    with m0 m1 show ?thesis by (simp add: bindM_def)
  next
    case (Inr x)
    obtain r2 d2 evs2 where f0: "f x (d1, []) = (r2, (d2, evs2))"
      by (cases "f x (d1, [])" rule: prod_cases3)
    have "f x (d1, evs1) = (r2, (d2, evs1 @ evs2))"
      by (rule appendingD [OF assms(2) f0])
    moreover have "f x (d1, tr @ evs1) = (r2, (d2, (tr @ evs1) @ evs2))"
      by (rule appendingD [OF assms(2) f0])
    ultimately have
      "f x (d1, evs1) = (r2, (d2, evs1 @ evs2))" "f x (d1, tr @ evs1) = (r2, (d2, (tr @ evs1) @ evs2))"
      by simp_all
    with m0 m1 Inr show ?thesis by (simp add: bindM_def)
  qed
qed

lemma appending_forEachM:
  assumes "\<And>x. appending (f x)"
  shows "appending (forEachM f xs)"
  by (induction xs) (simp_all add: appending_unitM appending_bindM assms)

lemma appending_steps:
  "appending (emit ev)"
  "appending (callGetTranslationKey opts e)"
  "appending (callFilter opts K lang)"
  "appending (callFormatTranslation f v m)"
  "appending (assignInnerHTML H e html)"
  "appending (callModifyElement g e v m)"
  "appending (applyModifyDocumentBefore opts lang)"
  "appending (applyModifyDocumentAfter opts lang)"
  "appending (selectElements H opts)"
  "appending (serializeDocument H)"
  by (auto simp: appending_def emit_def callGetTranslationKey_def callFilter_def
      callFormatTranslation_def assignInnerHTML_def callModifyElement_def
      applyModifyDocumentBefore_def applyModifyDocumentAfter_def selectElements_def
      serializeDocument_def unitM_def split: sum.splits option.splits)

lemma appending_translateElement: "appending (translateElement H opts lang e)"
  unfolding translateElement_def warnMissingTranslation_def applyTranslation_def
    applyModifyElement_def
  by (intro appending_bindM appending_steps appending_unitM | simp split: option.splits
      | intro conjI impI allI)+

lemma appending_translateDocument: "appending (translateDocument H opts lang)"
  unfolding translateDocument_def
  by (intro appending_bindM appending_steps appending_forEachM appending_translateElement)

lemma translateHtmlFile_artifact:
  assumes "translateHtmlFile H opts lang F w = (Inr u, w')"
  shows "\<exists>html out. files (fs w) F = Some html \<and> artifactOf H opts lang html = Inr out \<and> u = (F, out)"
proof -
  from assms obtain html where h: "files (fs w) F = Some html"
    by (auto simp: translateHtmlFile_def readFileSync_def split: option.splits)
  obtain r d evs where t0: "translateDocument H opts lang (newJSDOM H html, []) = (r, (d, evs))"
    by (cases "translateDocument H opts lang (newJSDOM H html, [])" rule: prod_cases3)
  from appendingD [OF appending_translateDocument t0]
  have "translateDocument H opts lang (newJSDOM H html, trace w) = (r, (d, trace w @ evs))" .
  with assms h t0 show ?thesis
    by (auto simp: translateHtmlFile_def readFileSync_def artifactOf_def split: sum.splits)
qed

lemma renderedFile_translateHtmlFile:
  "translateHtmlFile H opts lang F w = (Inr u, w') \<Longrightarrow> u = renderedFile H opts lang (files (fs w)) F"
  by (auto dest!: translateHtmlFile_artifact simp: renderedFile_def)

lemma renderedFile_mapM:
  "mapM (translateHtmlFile H opts lang) Fs w = (Inr us, w') \<Longrightarrow>
     us = map (renderedFile H opts lang (files (fs w))) Fs"
proof (induction Fs arbitrary: w us)
  case Nil
  then show ?case by (simp add: unitM_def)
next
  case (Cons F Fs)
  from Cons.prems obtain y w1 ys where
    s1: "translateHtmlFile H opts lang F w = (Inr y, w1)" and
    s2: "mapM (translateHtmlFile H opts lang) Fs w1 = (Inr ys, w')" and
    u: "us = y # ys"
    by (auto simp: bindM_Inr_iff unitM_def)
  from translateHtmlFile_frame [OF s1] have "fs w1 = fs w" by simp
  with Cons.IH [OF s2] renderedFile_translateHtmlFile [OF s1] u show ?case by simp
qed

lemma generateLanguage_files:
  assumes "generateLanguage H opts Fs lang w = (Inr (), w')"
  shows "files (fs w') = foldl (\<lambda>m F. m(pagePathOf F lang \<mapsto> snd (renderedFile H opts lang (files (fs w)) F)))
           (files (fs w)) Fs"
proof -
  from generateLanguage_Inr [OF assms] obtain updated w1 where
    m: "mapM (translateHtmlFile H opts lang) Fs w = (Inr updated, w1)" and
    f: "fs w1 = fs w" and
    wr: "forEachM (writeUpdatedHtmlFile lang) updated w1 = (Inr (), w')"
    by blast
  from renderedFile_mapM [OF m] have u: "updated = map (renderedFile H opts lang (files (fs w))) Fs" .
  from forEachM_write_Inr [OF wr] f
  have "files (fs w') = foldl (\<lambda>m u. m(pagePathOf (fst u) lang \<mapsto> snd u)) (files (fs w)) updated"
    by simp
  also have "\<dots> = foldl (\<lambda>m F. m(pagePathOf F lang \<mapsto> snd (renderedFile H opts lang (files (fs w)) F)))
           (files (fs w)) Fs"
    unfolding u by (simp add: foldl_map renderedFile_def)
  finally show ?thesis .
qed

lemma mapM_artifacts:
  "mapM (translateHtmlFile H opts lang) Fs w = (Inr us, w') \<Longrightarrow> F \<in> set Fs \<Longrightarrow>
     \<exists>html out. files (fs w) F = Some html \<and> artifactOf H opts lang html = Inr out"
proof (induction Fs arbitrary: w us)
  case Nil
  then show ?case by simp
next
  case (Cons G Fs)
  from Cons.prems(1) obtain y w1 ys where
    s1: "translateHtmlFile H opts lang G w = (Inr y, w1)" and
    s2: "mapM (translateHtmlFile H opts lang) Fs w1 = (Inr ys, w')"
    by (auto simp: bindM_Inr_iff unitM_def)
  from translateHtmlFile_frame [OF s1] have f: "fs w1 = fs w" by simp
  show ?case
  proof (cases "F = G")
    case True
    with translateHtmlFile_artifact [OF s1] show ?thesis by blast
  next
    case False
    with Cons.prems(2) have "F \<in> set Fs" by simp
    from Cons.IH [OF s2 this] f show ?thesis by simp
  qed
qed

lemma languages_content:
  assumes "F \<in> set Fs"
  shows "forEachM (generateLanguage H opts Fs) Ls w = (Inr (), w') \<Longrightarrow>
     files (fs w) F = Some html \<Longrightarrow>
     \<forall>G \<in> set Fs. \<forall>L \<in> set Ls. pagePathOf G L \<noteq> F \<Longrightarrow>
     \<forall>G \<in> set Fs. \<forall>L \<in> set Ls. pagePathOf G L = pagePathOf F M \<longrightarrow> G = F \<and> L = M \<Longrightarrow>
     files (fs w') F = Some html
     \<and> (M \<in> set Ls \<longrightarrow> (\<exists>out. artifactOf H opts M html = Inr out
            \<and> files (fs w') (pagePathOf F M) = Some out))
     \<and> (M \<notin> set Ls \<longrightarrow> files (fs w') (pagePathOf F M) = files (fs w) (pagePathOf F M))"
proof (induction Ls arbitrary: w)
  case Nil
  then show ?case by (simp add: unitM_def)
next
  case (Cons L Ls)
  let ?p = "pagePathOf F M"
  let ?k = "\<lambda>G. pagePathOf G L"
  let ?v = "\<lambda>G. snd (renderedFile H opts L (files (fs w)) G)"
  from Cons.prems(1) obtain w1 where
    s1: "generateLanguage H opts Fs L w = (Inr (), w1)" and
    s2: "forEachM (generateLanguage H opts Fs) Ls w1 = (Inr (), w')"
    by (auto simp: bindM_Inr_iff)
  note fl = generateLanguage_files [OF s1]
  have noF: "\<forall>G \<in> set Fs. ?k G \<noteq> F" using Cons.prems(3) by simp
  from foldl_upd_other [OF noF, of ?v "files (fs w)"] fl Cons.prems(2)
  have src1: "files (fs w1) F = Some html" by simp
  have p3: "\<forall>G \<in> set Fs. \<forall>L \<in> set Ls. pagePathOf G L \<noteq> F" using Cons.prems(3) by simp
  have p4: "\<forall>G \<in> set Fs. \<forall>L \<in> set Ls. pagePathOf G L = ?p \<longrightarrow> G = F \<and> L = M"
    using Cons.prems(4) by simp
  note IH = Cons.IH [OF s2 src1 p3 p4]
  show ?case
  proof (cases "L = M")
    case True
    from generateLanguage_Inr [OF s1] obtain us wm where
      "mapM (translateHtmlFile H opts L) Fs w = (Inr us, wm)" by blast
    from mapM_artifacts [OF this assms] Cons.prems(2) True obtain out where
      out: "artifactOf H opts M html = Inr out" by auto
    have same: "\<forall>G \<in> set Fs. ?k G = ?p \<longrightarrow> ?v G = out"
      using Cons.prems(2,4) out True by (auto simp: renderedFile_def)
    have "?k F = ?p" using True by simp
    from foldl_upd_same [OF assms this same, of "files (fs w)"] fl
    have now: "files (fs w1) ?p = Some out" by simp
    from IH now out True show ?thesis by auto
  next
    case False
    have "\<forall>G \<in> set Fs. ?k G \<noteq> ?p" using Cons.prems(4) False by auto
    from foldl_upd_other [OF this, of ?v "files (fs w)"] fl
    have "files (fs w1) ?p = files (fs w) ?p" by simp
    with IH False show ?thesis by auto
  qed
qed

lemma artifactOf_other_languages:
  assumes "map_of T' M = map_of (translations_option opts) M"
  shows "artifactOf H (opts\<lparr>translations_option := T'\<rparr>) M html = artifactOf H opts M html"
proof -
  let ?o = "opts\<lparr>translations_option := T'\<rparr>"
  have t: "translationsOf ?o M = translationsOf opts M"
    using assms by (simp add: translationsOf_def)
  have l: "lookupTranslation ?o M K = lookupTranslation opts M K" for K
    by (simp add: lookupTranslation_def t)
  have mt: "metaOf ?o M K = metaOf opts M K" for K
    by (simp add: metaOf_def t)
  have dm: "documentMetaOf ?o M = documentMetaOf opts M"
    by (simp add: documentMetaOf_def t)
  have w: "warnMissingTranslation ?o M K = warnMissingTranslation opts M K" for K
    unfolding warnMissingTranslation_def callFilter_def l t by (simp add: verboseOf_def filterOf_def)
  have a: "applyTranslation H ?o M el K = applyTranslation H opts M el K" for el K
    unfolding applyTranslation_def l mt by simp
  have m: "applyModifyElement ?o M el K = applyModifyElement opts M el K" for el K
    unfolding applyModifyElement_def l mt by simp
  have e: "translateElement H ?o M = translateElement H opts M"
    unfolding translateElement_def w a m by (simp add: callGetTranslationKey_def)
  have b: "applyModifyDocumentBefore ?o M = applyModifyDocumentBefore opts M"
    unfolding applyModifyDocumentBefore_def dm by simp
  have af: "applyModifyDocumentAfter ?o M = applyModifyDocumentAfter opts M"
    unfolding applyModifyDocumentAfter_def dm by simp
  have sl: "selectElements H ?o = selectElements H opts"
    by (simp add: selectElements_def)
  show ?thesis
    by (simp add: artifactOf_def translateDocument_def e b af sl)
qed

section \<open>Two runs on the same sources\<close>

lemma foldl_upd_agree:
  "m p = m' p \<or> p \<in> k ` set us \<Longrightarrow>
     foldl (\<lambda>m u. m(k u \<mapsto> v u)) m us p = foldl (\<lambda>m u. m(k u \<mapsto> v u)) m' us p"
proof (induction us arbitrary: m m')
  case Nil
  then show ?case by simp
next
  case (Cons u us)
  have "(m(k u \<mapsto> v u)) p = (m'(k u \<mapsto> v u)) p \<or> p \<in> k ` set us"
    using Cons.prems by auto
  with Cons.IH [of "m(k u \<mapsto> v u)" "m'(k u \<mapsto> v u)"] show ?case by simp
qed

lemma patternOf_result: "fst (patternOf pl opts v) = fst (patternOf pl opts w)"
  by (simp add: patternOf_def unitM_def split: option.splits)

lemma generateLanguage_agree:
  assumes "generateLanguage H opts Fs lang w = (Inr (), w')"
    and "generateLanguage H opts Fs lang v = (Inr (), v')"
    and "\<forall>F \<in> set Fs. files (fs v) F = files (fs w) F"
    and "files (fs v) p = files (fs w) p \<or> p \<in> (\<lambda>F. pagePathOf F lang) ` set Fs"
  shows "files (fs v') p = files (fs w') p"
proof -
  from generateLanguage_Inr [OF assms(1)] obtain uw w1 where
    mw: "mapM (translateHtmlFile H opts lang) Fs w = (Inr uw, w1)" and fw: "fs w1 = fs w" and
    ww: "forEachM (writeUpdatedHtmlFile lang) uw w1 = (Inr (), w')"
    by blast
  from generateLanguage_Inr [OF assms(2)] obtain uv v1 where
    mv: "mapM (translateHtmlFile H opts lang) Fs v = (Inr uv, v1)" and fv: "fs v1 = fs v" and
    wv: "forEachM (writeUpdatedHtmlFile lang) uv v1 = (Inr (), v')"
    by blast
  have "map (renderedFile H opts lang (files (fs v))) Fs = map (renderedFile H opts lang (files (fs w))) Fs"
    using assms(3) by (simp add: renderedFile_def)
  with renderedFile_mapM [OF mw] renderedFile_mapM [OF mv] have same: "uv = uw" by simp
  have fsts: "map fst uw = Fs"
    unfolding renderedFile_mapM [OF mw] by (simp add: comp_def renderedFile_def)
  have "(\<lambda>u. pagePathOf (fst u) lang) ` set uw = (\<lambda>F. pagePathOf F lang) ` set Fs"
    unfolding fsts [symmetric] by (simp add: image_image)
  with assms(4) fw fv
  have "files (fs v1) p = files (fs w1) p \<or> p \<in> (\<lambda>u. pagePathOf (fst u) lang) ` set uw"
    by simp
  with foldl_upd_agree [where m = "files (fs v1)" and m' = "files (fs w1)" and p = p
      and k = "\<lambda>u. pagePathOf (fst u) lang" and us = uw and v = snd]
  have "foldl (\<lambda>m u. m(pagePathOf (fst u) lang \<mapsto> snd u)) (files (fs v1)) uw p
      = foldl (\<lambda>m u. m(pagePathOf (fst u) lang \<mapsto> snd u)) (files (fs w1)) uw p"
    by blast
  with forEachM_write_Inr [OF ww] forEachM_write_Inr [OF wv] same
  show ?thesis by simp
qed

lemma languages_agree:
  "forEachM (generateLanguage H opts Fs) Ls w = (Inr (), w') \<Longrightarrow>
   forEachM (generateLanguage H opts Fs) Ls v = (Inr (), v') \<Longrightarrow>
   \<forall>F \<in> set Fs. files (fs v) F = files (fs w) F \<Longrightarrow>
   files (fs v) p = files (fs w) p \<or> (\<exists>L \<in> set Ls. p \<in> (\<lambda>F. pagePathOf F L) ` set Fs) \<Longrightarrow>
   files (fs v') p = files (fs w') p"
proof (induction Ls arbitrary: w v)
  case Nil
  then show ?case by (simp add: unitM_def)
next
  case (Cons L Ls)
  from Cons.prems(1) obtain w1 where
    w1: "generateLanguage H opts Fs L w = (Inr (), w1)" and
    w2: "forEachM (generateLanguage H opts Fs) Ls w1 = (Inr (), w')"
    by (auto simp: bindM_Inr_iff)
  from Cons.prems(2) obtain v1 where
    v1: "generateLanguage H opts Fs L v = (Inr (), v1)" and
    v2: "forEachM (generateLanguage H opts Fs) Ls v1 = (Inr (), v')"
    by (auto simp: bindM_Inr_iff)
  have src: "\<forall>F \<in> set Fs. files (fs v1) F = files (fs w1) F"
    using generateLanguage_agree [OF w1 v1 Cons.prems(3)] Cons.prems(3) by blast
  have "files (fs v1) p = files (fs w1) p \<or> (\<exists>L \<in> set Ls. p \<in> (\<lambda>F. pagePathOf F L) ` set Fs)"
    using generateLanguage_agree [OF w1 v1 Cons.prems(3), of p] Cons.prems(4) by auto
  from Cons.IH [OF w2 v2 src this] show ?case .
qed

section \<open>Skipped elements\<close>

text \<open>
  C10. When \<^verbatim>\<open>getTranslationKey\<close> returns the empty string for a selected element,
  the element is skipped exactly as for \<^verbatim>\<open>null\<close>: the step does not throw, the DOM is
  as before (content and attributes of the element included), and the only entry added to
  the trace is the call of \<^verbatim>\<open>getTranslationKey\<close> itself, so there is no warning,
  no call of \<^verbatim>\<open>formatTranslation\<close>, of \<^verbatim>\<open>modifyElement\<close> or of the filter, and no
  assignment to \<^verbatim>\<open>innerHTML\<close>. The step is the one of the same options with an
  extraction that returns \<^verbatim>\<open>null\<close>.
\<close>

theorem empty_key_skips_element:
  assumes "getTranslationKey opts element d = Inr (Some [])"
  shows "translateElement H opts lang element (d, tr) = (Inr (), (d, tr @ [CallGetTranslationKey element]))
    \<and> translateElement H (opts\<lparr>getTranslationKey := (\<lambda>e doc. Inr None)\<rparr>) lang element (d, tr)
        = translateElement H opts lang element (d, tr)"
  using assms
  by (simp add: translateElement_def callGetTranslationKey_def bindM_def unitM_def truthy_def)

theorem empty_key_skips_element_witness:
  "translateElement exampleHost exampleOptions ''en'' 0 (emptyKeyDocument, [])
     = (Inr (), (emptyKeyDocument, [CallGetTranslationKey 0]))
   \<and> translateElement exampleHost (exampleOptions\<lparr>getTranslationKey := (\<lambda>e doc. Inr None)\<rparr>)
        ''en'' 0 (emptyKeyDocument, [])
     = translateElement exampleHost exampleOptions ''en'' 0 (emptyKeyDocument, [])"
proof -
  have key: "getTranslationKey exampleOptions 0 emptyKeyDocument = Inr (Some [])"
    by code_simp
  show ?thesis
    using empty_key_skips_element [OF key, of exampleHost "''en''" "[]"] by simp
qed

section \<open>No file found\<close>

text \<open>
  C8. When the discovery returns no path, \<^verbatim>\<open>closeBundle\<close> returns without an
  exception; the file system is the one before the run (no artifact is written), no file
  is read and no document is made or translated, and the only line printed is the report
  \<^verbatim>\<open>HTML files not found by <pattern> pattern\<close>. The only call made before it is
  the one of \<^verbatim>\<open>glob\<close>, when that option is given.
\<close>

theorem no_files_found:
  assumes "patternOf pl opts w = (Inr pat, w1)"
    and "globSync H pat (fs w1) = []"
  shows "closeBundle H pl opts w =
           (Inr (), w1\<lparr>trace := trace w1 @
              [ConsoleLog [Str logPluginPrefix, Str ''HTML files not found by'', Pat pat, Str ''pattern'']]\<rparr>)
         \<and> fs w1 = fs w \<and> htmlResultFilePaths w1 = htmlResultFilePaths w
         \<and> (trace w1 = trace w \<or> trace w1 = trace w @ [CallGlob (outputPath pl)])"
  using assms
  by (auto simp: closeBundle_def patternOf_def bindM_def consoleLog_def unitM_def split: option.splits)

theorem no_files_found_witness:
  "closeBundle (flatHost []) examplePlugin exampleOptions exampleWorld =
     (Inr (), exampleWorld\<lparr>trace := trace exampleWorld @
        [ConsoleLog [Str logPluginPrefix, Str ''HTML files not found by'',
           Pat (Pattern ''/dist/*.html''), Str ''pattern'']]\<rparr>)
   \<and> fs exampleWorld = fs exampleWorld"
proof -
  have p: "patternOf examplePlugin exampleOptions exampleWorld = (Inr (Pattern ''/dist/*.html''), exampleWorld)"
    by (simp add: patternOf_def exampleOptions_def unitM_def examplePlugin_def configResolved_def
        path_isAbsolute_def path_join_def path_normalize_def)
  have g: "globSync (flatHost []) (Pattern ''/dist/*.html'') (fs exampleWorld) = []"
    by (simp add: flatHost_def)
  show ?thesis
    using no_files_found [OF p g] by simp
qed

section \<open>The warning for a translation that is not found\<close>




section \<open>The value of a translation that is not found\<close>




section \<open>The artifacts of a run\<close>



section \<open>Source files\<close>

text \<open>
  C1, as the code has it. \<^verbatim>\<open>closeBundle\<close> never deletes a file, also when the options
  carry \<^verbatim>\<open>deleteSourceHtmlFiles: true\<close>: whatever the outcome of the run, every file
  that existed before it exists after it, and the same holds for the iteration of each
  language, so nothing is deleted in the middle of the loop. After a run that returns,
  for a discovered source \<open>F\<close> and a declared language \<open>L\<close> (such as \<^verbatim>\<open>en\<close>
  and \<^verbatim>\<open>fr\<close>), the source still exists and so does the page of \<open>F\<close> in the
  directory of \<open>L\<close>.
\<close>

theorem sources_are_never_deleted:
  assumes "deleteSourceHtmlFiles opts"
    and "closeBundle H pl opts w = (r, w')"
    and "patternOf pl opts w = (Inr pat, w1)"
    and "F \<in> set (globSync H pat (fs w1))" and "L \<in> set (languages opts)"
    and "generateLanguage H opts Fs lang v = (r', v')"
  shows "dom (files (fs w)) \<subseteq> dom (files (fs w'))
    \<and> dom (files (fs v)) \<subseteq> dom (files (fs v'))
    \<and> (r = Inr () \<longrightarrow>
          files (fs w') F \<noteq> None \<and> files (fs w') (pagePathOf F L) \<noteq> None)"
proof -
  from closeBundle_grows [OF assms(2)] have g: "dom (files (fs w)) \<subseteq> dom (files (fs w'))"
    by (simp add: grows_def)
  from generateLanguage_grows [OF assms(6)] have g': "dom (files (fs v)) \<subseteq> dom (files (fs v'))"
    by (simp add: grows_def)
  have "files (fs w') F \<noteq> None \<and> files (fs w') (pagePathOf F L) \<noteq> None" if ok: "r = Inr ()"
  proof -
    from assms(4) have ne: "globSync H pat (fs w1) \<noteq> []" by auto
    from closeBundle_found [OF assms(3) refl ne] assms(2) ok obtain w2 where
      l: "forEachM (generateLanguage H opts (globSync H pat (fs w1))) (languages opts)
            (startOfRun pl (globSync H pat (fs w1)) w1) = (Inr (), w2)"
      and e: "w' = endOfRun pl w2"
      by (auto split: prod.splits sum.splits)
    from assms(5) have "languages opts \<noteq> []" by auto
    with languages_written [OF l] assms(4,5) e
    have "files (fs w') (pagePathOf F L) \<noteq> None" and "files (fs w1) F \<noteq> None"
      by (auto simp: endOfRun_def startOfRun_def)
    with patternOf_frame [OF assms(3)] g show ?thesis by (auto simp: dom_def)
  qed
  with g g' show ?thesis by blast
qed

theorem sources_are_never_deleted_witness:
  "files (fs (snd (closeBundle exampleHost examplePlugin deleteOptions exampleWorld)))
     ''/dist/index.html'' \<noteq> None
   \<and> files (fs (snd (closeBundle exampleHost examplePlugin deleteOptions exampleWorld)))
     ''/dist/en/index.html'' \<noteq> None
   \<and> dom (files (fs exampleWorld))
       \<subseteq> dom (files (fs (snd (closeBundle exampleHost examplePlugin deleteOptions exampleWorld))))"
proof -
  let ?W = "snd (closeBundle exampleHost examplePlugin deleteOptions exampleWorld)"
  let ?G = "generateLanguage exampleHost deleteOptions [''/dist/index.html''] ''en'' exampleWorld"
  have a1: "deleteSourceHtmlFiles deleteOptions"
    by (simp add: deleteOptions_def)
  have ok: "fst (closeBundle exampleHost examplePlugin deleteOptions exampleWorld) = Inr ()"
    by code_simp
  then have a2: "closeBundle exampleHost examplePlugin deleteOptions exampleWorld = (Inr (), ?W)"
    by (metis prod.collapse)
  have a3: "patternOf examplePlugin deleteOptions exampleWorld
      = (Inr (Pattern ''/dist/*.html''), exampleWorld\<lparr>trace := trace exampleWorld @ [CallGlob ''/dist'']\<rparr>)"
    by (simp add: patternOf_def deleteOptions_def examplePlugin_outputPath)
  have a4: "''/dist/index.html'' \<in> set (globSync exampleHost (Pattern ''/dist/*.html'')
      (fs (exampleWorld\<lparr>trace := trace exampleWorld @ [CallGlob ''/dist'']\<rparr>)))"
    by (simp add: exampleHost_def flatHost_def exampleWorld_def)
  have a5: "''en'' \<in> set (languages deleteOptions)"
    by code_simp
  have a6: "?G = (fst ?G, snd ?G)"
    by simp
  from sources_are_never_deleted [OF a1 a2 a3 a4 a5 a6] show ?thesis
    by (simp add: example_pagePaths)
qed

text \<open>
  C1 as stated fails: with the example configuration of the repository, which passes
  \<^verbatim>\<open>deleteSourceHtmlFiles: true\<close>, the run over \<^verbatim>\<open>/dist/index.html\<close> returns, the
  pages of \<^verbatim>\<open>en\<close> and \<^verbatim>\<open>fr\<close> are written, and the source is still there with its
  text.
\<close>

theorem source_remains_after_run:
  "deleteSourceHtmlFiles deleteOptions
   \<and> fst (closeBundle exampleHost examplePlugin deleteOptions exampleWorld) = Inr ()
   \<and> files (fs (snd (closeBundle exampleHost examplePlugin deleteOptions exampleWorld)))
       ''/dist/index.html'' = Some ''<div data-i18n=\"hello\">x</div>''
   \<and> files (fs (snd (closeBundle exampleHost examplePlugin deleteOptions exampleWorld)))
       ''/dist/en/index.html''
       = Some ''<html lang=\"en\"><head></head><body><div data-i18n=\"hello\">Hello</div></body></html>''
   \<and> files (fs (snd (closeBundle exampleHost examplePlugin deleteOptions exampleWorld)))
       ''/dist/fr/index.html''
       = Some ''<html lang=\"fr\"><head></head><body><div data-i18n=\"hello\">Bonjour</div></body></html>''"
  by code_simp

section \<open>A hook that throws\<close>

text \<open>
  C7. Let the languages \<open>Ls1\<close> have been generated and the files \<open>Fs1\<close> translated
  for the language \<open>L\<close>, and let the pass for the file \<open>F\<close> and \<open>L\<close> throw
  \<open>err\<close>. Then \<^verbatim>\<open>closeBundle\<close> throws \<open>err\<close> to its caller, in the state the
  pass had reached: nothing is written for \<open>L\<close>, and the files \<open>Fs2\<close> and the
  languages \<open>Ls2\<close> that remain do not matter. A pass throws when the before-document
  hook throws, when the step of an element throws (the elements after it do not matter),
  or when the after-document hook throws; the step of an element throws when the
  extraction, the filter, the format hook or the mutate hook throws; and the run throws
  when \<^verbatim>\<open>glob\<close> throws. No step catches an exception.
\<close>

theorem hook_failure_aborts_run:
  assumes "patternOf pl opts w = (Inr pat, w1)"
    and "globSync H pat (fs w1) = Fs1 @ F # Fs2"
    and "languages opts = Ls1 @ L # Ls2"
    and "forEachM (generateLanguage H opts (Fs1 @ F # Fs2)) Ls1 (startOfRun pl (Fs1 @ F # Fs2) w1)
           = (Inr (), w2)"
    and "mapM (translateHtmlFile H opts L) Fs1 w2 = (Inr updated, w3)"
    and "readFileSync F (fs w3) = Inr html"
    and "translateDocument H opts L (newJSDOM H html, trace w3) = (Inl err, (d, tr))"
  shows "closeBundle H pl opts w = (Inl err, w3\<lparr>trace := tr\<rparr>)
    \<and> fs w3 = fs w2 \<and> htmlResultFilePaths w3 = htmlResultFilePaths w2
    \<and> (\<forall>err' w'. patternOf pl opts w = (Inl err', w') \<longrightarrow> closeBundle H pl opts w = (Inl err', w'))
    \<and> (\<forall>s s'. applyModifyDocumentBefore opts L s = (Inl err, s') \<longrightarrow>
          translateDocument H opts L s = (Inl err, s'))
    \<and> (\<forall>s s0 es1 e es2 s1 s2.
          applyModifyDocumentBefore opts L s = (Inr (), s0) \<longrightarrow>
          selectElements H opts s0 = (Inr (es1 @ e # es2), s0) \<longrightarrow>
          forEachM (translateElement H opts L) es1 s0 = (Inr (), s1) \<longrightarrow>
          translateElement H opts L e s1 = (Inl err, s2) \<longrightarrow>
          translateDocument H opts L s = (Inl err, s2))
    \<and> (\<forall>s s0 es s1 s2.
          applyModifyDocumentBefore opts L s = (Inr (), s0) \<longrightarrow>
          selectElements H opts s0 = (Inr es, s0) \<longrightarrow>
          forEachM (translateElement H opts L) es s0 = (Inr (), s1) \<longrightarrow>
          applyModifyDocumentAfter opts L s1 = (Inl err, s2) \<longrightarrow>
          translateDocument H opts L s = (Inl err, s2))
    \<and> (\<forall>e d0 tr0. getTranslationKey opts e d0 = Inl err \<longrightarrow>
          translateElement H opts L e (d0, tr0) = (Inl err, (d0, tr0 @ [CallGetTranslationKey e])))
    \<and> (\<forall>e d0 tr0 K s1 s2 s3. getTranslationKey opts e d0 = Inr (Some K) \<longrightarrow> K \<noteq> [] \<longrightarrow>
          (warnMissingTranslation opts L K (d0, tr0 @ [CallGetTranslationKey e]) = (Inl err, s1) \<longrightarrow>
             translateElement H opts L e (d0, tr0) = (Inl err, s1))
        \<and> (warnMissingTranslation opts L K (d0, tr0 @ [CallGetTranslationKey e]) = (Inr (), s1) \<longrightarrow>
             applyTranslation H opts L e K s1 = (Inl err, s2) \<longrightarrow>
             translateElement H opts L e (d0, tr0) = (Inl err, s2))
        \<and> (warnMissingTranslation opts L K (d0, tr0 @ [CallGetTranslationKey e]) = (Inr (), s1) \<longrightarrow>
             applyTranslation H opts L e K s1 = (Inr (), s2) \<longrightarrow>
             applyModifyElement opts L e K s2 = (Inl err, s3) \<longrightarrow>
             translateElement H opts L e (d0, tr0) = (Inl err, s3)))
    \<and> (\<forall>e K s.
          (\<not> truthy (lookupTranslation opts L K) \<longrightarrow> verboseOf opts \<longrightarrow>
             filterOf opts K L (translationsOf opts L) = Inl err \<longrightarrow>
             fst (warnMissingTranslation opts L K s) = Inl err)
        \<and> (\<forall>f. formatTranslation opts = Some f \<longrightarrow>
             f (lookupTranslation opts L K) (metaOf opts L K) = Inl err \<longrightarrow>
             fst (applyTranslation H opts L e K s) = Inl err)
        \<and> (\<forall>g. modifyElement opts = Some g \<longrightarrow>
             g e (lookupTranslation opts L K) (metaOf opts L K) (fst s) = Inl err \<longrightarrow>
             fst (applyModifyElement opts L e K s) = Inl err)
        \<and> (\<forall>b. modifyDocumentBefore opts = Some b \<longrightarrow> b (fst s) (documentMetaOf opts L) = Inl err \<longrightarrow>
             fst (applyModifyDocumentBefore opts L s) = Inl err)
        \<and> (\<forall>a. modifyDocumentAfter opts = Some a \<longrightarrow> a (fst s) (documentMetaOf opts L) = Inl err \<longrightarrow>
             fst (applyModifyDocumentAfter opts L s) = Inl err))"
proof -
  note pass = document_throws_in_file [OF assms(6,7)]
  from file_throws_in_run [OF assms(1-5) pass]
  have run: "closeBundle H pl opts w = (Inl err, w3\<lparr>trace := tr\<rparr>)"
    by simp
  from mapM_translateHtmlFile_frame [OF assms(5)]
  have frame: "fs w3 = fs w2 \<and> htmlResultFilePaths w3 = htmlResultFilePaths w2" .
  show ?thesis
    using run frame
    by (intro conjI allI impI)
      (simp_all add: glob_throws_in_run before_throws_in_document element_throws_in_document
        after_throws_in_document extraction_throws_in_element warn_throws_in_element
        apply_throws_in_element modify_throws_in_element filter_throws format_throws
        modifyElement_throws modifyDocumentBefore_throws modifyDocumentAfter_throws)
qed

theorem hook_failure_aborts_run_witness:
  "fst (closeBundle exampleHost examplePlugin throwingOptions exampleWorld) = Inl (HookFailure ''boom'')
   \<and> files (fs (snd (closeBundle exampleHost examplePlugin throwingOptions exampleWorld)))
        ''/dist/en/index.html'' \<noteq> None
   \<and> files (fs (snd (closeBundle exampleHost examplePlugin throwingOptions exampleWorld)))
        ''/dist/fr/index.html'' = None"
proof -
  let ?F = "''/dist/index.html''"
  let ?en = "forEachM (generateLanguage exampleHost throwingOptions ([] @ ?F # [])) [''en'']
               (startOfRun examplePlugin ([] @ ?F # []) exampleWorld)"
  let ?W2 = "snd ?en"
  let ?html = "''<div data-i18n=\"hello\">x</div>''"
  let ?doc = "translateDocument exampleHost throwingOptions ''fr'' (newJSDOM exampleHost ?html, trace ?W2)"
  have a1: "patternOf examplePlugin throwingOptions exampleWorld
      = (Inr (Pattern ''/dist/*.html''), exampleWorld)"
    by (simp add: patternOf_def throwingOptions_def exampleOptions_def unitM_def examplePlugin_outputPath)
  have a2: "globSync exampleHost (Pattern ''/dist/*.html'') (fs exampleWorld) = [] @ ?F # []"
    by (simp add: exampleHost_def flatHost_def exampleWorld_def)
  have a3: "languages throwingOptions = [''en''] @ ''fr'' # []"
    by code_simp
  have "fst ?en = Inr ()"
    by code_simp
  then have a4: "?en = (Inr (), ?W2)"
    by (metis prod.collapse)
  have a5: "mapM (translateHtmlFile exampleHost throwingOptions ''fr'') [] ?W2 = (Inr [], ?W2)"
    by (simp add: unitM_def)
  have a6: "readFileSync ?F (fs ?W2) = Inr ?html"
    by code_simp
  have "fst ?doc = Inl (HookFailure ''boom'')"
    by code_simp
  then have a7: "?doc = (Inl (HookFailure ''boom''), (fst (snd ?doc), snd (snd ?doc)))"
    by (metis prod.collapse)
  note T = hook_failure_aborts_run [OF a1 a2 a3 a4 a5 a6 a7]
  from T have run: "closeBundle exampleHost examplePlugin throwingOptions exampleWorld
      = (Inl (HookFailure ''boom''), ?W2\<lparr>trace := snd (snd ?doc)\<rparr>)"
    by blast
  have en: "files (fs ?W2) ''/dist/en/index.html'' \<noteq> None"
    by code_simp
  have fr: "files (fs ?W2) ''/dist/fr/index.html'' = None"
    by code_simp
  from run en fr show ?thesis
    by simp
qed

section \<open>The order of the hooks\<close>



section \<open>Running again\<close>

text \<open>
  C9. The hooks of the model are functions, so they are deterministic. Take two runs of
  the same plugin and options that return, from two states of the file system in which
  the discovery finds the same files \<open>Fs\<close> (at least one) with the same texts, for
  instance the state before a run and the state after it. Then both runs write the same
  destinations in the same order, language by language in the order of the keys of the
  table and, within a language, file by file in the order of the discovery; and after the
  runs every destination holds the same text, byte for byte.
\<close>

theorem rerun_gives_identical_artifacts:
  assumes "closeBundle H pl opts w = (Inr (), w')"
    and "closeBundle H pl opts v = (Inr (), v')"
    and "patternOf pl opts w = (Inr pat, w1)"
    and "globSync H pat (fs w) = Fs" and "globSync H pat (fs v) = Fs" and "Fs \<noteq> []"
    and "\<forall>F \<in> set Fs. files (fs v) F = files (fs w) F"
  shows "htmlResultFilePaths w' = concat (map (\<lambda>L. map (\<lambda>F. pagePathOf F L) Fs) (languages opts))
    \<and> htmlResultFilePaths v' = htmlResultFilePaths w'
    \<and> (\<forall>p \<in> set (htmlResultFilePaths w'). files (fs v') p = files (fs w') p)"
proof -
  obtain rv v1 where pv: "patternOf pl opts v = (rv, v1)" by (cases "patternOf pl opts v")
  with patternOf_result [of pl opts v w] assms(3) have pv: "patternOf pl opts v = (Inr pat, v1)"
    by simp
  from patternOf_frame [OF assms(3)] patternOf_frame [OF pv]
  have f1: "fs w1 = fs w" "fs v1 = fs v" by simp_all
  from assms(4) f1 have gw: "globSync H pat (fs w1) = Fs" by simp
  from assms(5) f1 have gv: "globSync H pat (fs v1) = Fs" by simp
  from closeBundle_found [OF assms(3) gw assms(6)] assms(1) obtain w2 where
    lw: "forEachM (generateLanguage H opts Fs) (languages opts) (startOfRun pl Fs w1) = (Inr (), w2)"
    and ew: "w' = endOfRun pl w2"
    by (auto split: prod.splits sum.splits)
  from closeBundle_found [OF pv gv assms(6)] assms(2) obtain v2 where
    lv: "forEachM (generateLanguage H opts Fs) (languages opts) (startOfRun pl Fs v1) = (Inr (), v2)"
    and ev: "v' = endOfRun pl v2"
    by (auto split: prod.splits sum.splits)
  from languages_written [OF lw] ew
  have pw: "htmlResultFilePaths w' = concat (map (\<lambda>L. map (\<lambda>F. pagePathOf F L) Fs) (languages opts))"
    by (simp add: endOfRun_def startOfRun_def)
  from languages_written [OF lv] ev
  have pv': "htmlResultFilePaths v' = concat (map (\<lambda>L. map (\<lambda>F. pagePathOf F L) Fs) (languages opts))"
    by (simp add: endOfRun_def startOfRun_def)
  have src: "\<forall>F \<in> set Fs. files (fs (startOfRun pl Fs v1)) F = files (fs (startOfRun pl Fs w1)) F"
    using assms(7) f1 by (simp add: startOfRun_def)
  have "files (fs v') p = files (fs w') p" if "p \<in> set (htmlResultFilePaths w')" for p
  proof -
    from that pw have "\<exists>L \<in> set (languages opts). p \<in> (\<lambda>F. pagePathOf F L) ` set Fs"
      by auto
    then have "files (fs (startOfRun pl Fs v1)) p = files (fs (startOfRun pl Fs w1)) p
        \<or> (\<exists>L \<in> set (languages opts). p \<in> (\<lambda>F. pagePathOf F L) ` set Fs)"
      by blast
    from languages_agree [OF lw lv src this] ew ev show ?thesis
      by (simp add: endOfRun_def)
  qed
  with pw pv' show ?thesis by simp
qed

theorem rerun_gives_identical_artifacts_witness:
  "htmlResultFilePaths (snd (closeBundle exampleHost examplePlugin exampleOptions
       (snd (closeBundle exampleHost examplePlugin exampleOptions exampleWorld))))
     = [''/dist/en/index.html'', ''/dist/fr/index.html'']
   \<and> files (fs (snd (closeBundle exampleHost examplePlugin exampleOptions
       (snd (closeBundle exampleHost examplePlugin exampleOptions exampleWorld))))) ''/dist/fr/index.html''
     = files (fs (snd (closeBundle exampleHost examplePlugin exampleOptions exampleWorld)))
         ''/dist/fr/index.html''"
proof -
  let ?F = "''/dist/index.html''"
  let ?W = "snd (closeBundle exampleHost examplePlugin exampleOptions exampleWorld)"
  let ?V = "snd (closeBundle exampleHost examplePlugin exampleOptions ?W)"
  have "fst (closeBundle exampleHost examplePlugin exampleOptions exampleWorld) = Inr ()"
    by code_simp
  then have a1: "closeBundle exampleHost examplePlugin exampleOptions exampleWorld = (Inr (), ?W)"
    by (metis prod.collapse)
  have "fst (closeBundle exampleHost examplePlugin exampleOptions ?W) = Inr ()"
    by code_simp
  then have a2: "closeBundle exampleHost examplePlugin exampleOptions ?W = (Inr (), ?V)"
    by (metis prod.collapse)
  have a3: "patternOf examplePlugin exampleOptions exampleWorld
      = (Inr (Pattern ''/dist/*.html''), exampleWorld)"
    by (simp add: patternOf_def exampleOptions_def unitM_def examplePlugin_outputPath)
  have a4: "globSync exampleHost (Pattern ''/dist/*.html'') (fs exampleWorld) = [?F]"
    by (simp add: exampleHost_def flatHost_def exampleWorld_def)
  have a5: "globSync exampleHost (Pattern ''/dist/*.html'') (fs ?W) = [?F]"
    by code_simp
  have a6: "[?F] \<noteq> []"
    by simp
  have "files (fs ?W) ?F = Some ''<div data-i18n=\"hello\">x</div>''"
    by code_simp
  then have a7: "\<forall>F \<in> set [?F]. files (fs ?W) F = files (fs exampleWorld) F"
    by (simp add: exampleWorld_def)
  note T = rerun_gives_identical_artifacts [OF a1 a2 a3 a4 a5 a6 a7]
  have langs: "languages exampleOptions = [''en'', ''fr'']"
    by code_simp
  from T have "htmlResultFilePaths ?V = [''/dist/en/index.html'', ''/dist/fr/index.html'']"
    by (simp add: langs example_pagePaths)
  moreover from T have "files (fs ?V) ''/dist/fr/index.html'' = files (fs ?W) ''/dist/fr/index.html''"
    by (simp add: langs example_pagePaths)
  ultimately show ?thesis by blast
qed

section \<open>What an artifact depends on\<close>

text \<open>
  C5, as the code has it. Each pass reads the file and makes a new \<^verbatim>\<open>JSDOM\<close> of its
  text (\<open>artifactOf\<close> is the pass on a new document and an empty trace), and no
  document is used again. After a run that returns, for a discovered file \<open>F\<close> with
  source text \<open>html\<close> and a declared language \<open>M\<close>: if no destination of the run
  is the path \<open>F\<close> itself, and no other pair of a file and a language has the
  destination of \<open>F\<close> and \<open>M\<close>, then the text at that destination is the
  artifact of \<open>html\<close> for \<open>M\<close>; and that artifact is the same for every table
  that has the same entry for \<open>M\<close>, whatever its other languages are.
\<close>

theorem artifact_of_source_text:
  assumes "closeBundle H pl opts w = (Inr (), w')"
    and "patternOf pl opts w = (Inr pat, w1)"
    and "globSync H pat (fs w1) = Fs"
    and "F \<in> set Fs" and "M \<in> set (languages opts)"
    and "files (fs w) F = Some html"
    and "\<forall>G \<in> set Fs. \<forall>L \<in> set (languages opts). pagePathOf G L \<noteq> F"
    and "\<forall>G \<in> set Fs. \<forall>L \<in> set (languages opts).
           pagePathOf G L = pagePathOf F M \<longrightarrow> G = F \<and> L = M"
  shows "(\<exists>out. artifactOf H opts M html = Inr out \<and> files (fs w') (pagePathOf F M) = Some out)
    \<and> artifactOf H opts M html = fst (translateDocument H opts M (newJSDOM H html, []))
    \<and> (\<forall>T'. map_of T' M = map_of (translations_option opts) M \<longrightarrow>
          artifactOf H (opts\<lparr>translations_option := T'\<rparr>) M html = artifactOf H opts M html)"
proof -
  from assms(4) have ne: "Fs \<noteq> []" by auto
  from closeBundle_found [OF assms(2,3) ne] assms(1) obtain w2 where
    l: "forEachM (generateLanguage H opts Fs) (languages opts) (startOfRun pl Fs w1) = (Inr (), w2)"
    and e: "w' = endOfRun pl w2"
    by (auto split: prod.splits sum.splits)
  from patternOf_frame [OF assms(2)] assms(6)
  have src: "files (fs (startOfRun pl Fs w1)) F = Some html"
    by (simp add: startOfRun_def)
  from languages_content [OF assms(4) l src assms(7,8)] assms(5) e
  have "\<exists>out. artifactOf H opts M html = Inr out \<and> files (fs w') (pagePathOf F M) = Some out"
    by (simp add: endOfRun_def)
  then show ?thesis
    by (simp add: artifactOf_other_languages) (simp add: artifactOf_def)
qed

theorem artifact_of_source_text_witness:
  "files (fs (snd (closeBundle exampleHost examplePlugin exampleOptions exampleWorld)))
     ''/dist/fr/index.html''
     = Some ''<html><head></head><body><div data-i18n=\"hello\">Bonjour</div></body></html>''
   \<and> artifactOf exampleHost (exampleOptions\<lparr>translations_option :=
         [(''fr'', [(''hello'', ''Bonjour'')]), (''en'', [])]\<rparr>) ''fr'' ''<div data-i18n=\"hello\">x</div>''
     = artifactOf exampleHost exampleOptions ''fr'' ''<div data-i18n=\"hello\">x</div>''"
proof -
  let ?F = "''/dist/index.html''"
  let ?html = "''<div data-i18n=\"hello\">x</div>''"
  let ?W = "snd (closeBundle exampleHost examplePlugin exampleOptions exampleWorld)"
  have "fst (closeBundle exampleHost examplePlugin exampleOptions exampleWorld) = Inr ()"
    by code_simp
  then have a1: "closeBundle exampleHost examplePlugin exampleOptions exampleWorld = (Inr (), ?W)"
    by (metis prod.collapse)
  have a2: "patternOf examplePlugin exampleOptions exampleWorld
      = (Inr (Pattern ''/dist/*.html''), exampleWorld)"
    by (simp add: patternOf_def exampleOptions_def unitM_def examplePlugin_outputPath)
  have a3: "globSync exampleHost (Pattern ''/dist/*.html'') (fs exampleWorld) = [?F]"
    by (simp add: exampleHost_def flatHost_def exampleWorld_def)
  have a4: "?F \<in> set [?F]"
    by simp
  have langs: "languages exampleOptions = [''en'', ''fr'']"
    by code_simp
  have a5: "''fr'' \<in> set (languages exampleOptions)"
    by (simp add: langs)
  have a6: "files (fs exampleWorld) ?F = Some ?html"
    by (simp add: exampleWorld_def)
  have a7: "\<forall>G \<in> set [?F]. \<forall>L \<in> set (languages exampleOptions). pagePathOf G L \<noteq> ?F"
    by (simp add: langs example_pagePaths)
  have a8: "\<forall>G \<in> set [?F]. \<forall>L \<in> set (languages exampleOptions).
      pagePathOf G L = pagePathOf ?F ''fr'' \<longrightarrow> G = ?F \<and> L = ''fr''"
    by (simp add: langs example_pagePaths)
  note T = artifact_of_source_text [OF a1 a2 a3 a4 a5 a6 a7 a8]
  have out: "artifactOf exampleHost exampleOptions ''fr'' ?html
      = Inr ''<html><head></head><body><div data-i18n=\"hello\">Bonjour</div></body></html>''"
    by code_simp
  have same: "map_of [(''fr'', [(''hello'', ''Bonjour'')]), (''en'', [])] ''fr''
      = map_of (translations_option exampleOptions) ''fr''"
    by code_simp
  from T out have "files (fs ?W) ''/dist/fr/index.html''
      = Some ''<html><head></head><body><div data-i18n=\"hello\">Bonjour</div></body></html>''"
    by (auto simp: example_pagePaths)
  moreover from T same have "artifactOf exampleHost (exampleOptions\<lparr>translations_option :=
         [(''fr'', [(''hello'', ''Bonjour'')]), (''en'', [])]\<rparr>) ''fr'' ?html
     = artifactOf exampleHost exampleOptions ''fr'' ?html"
    by blast
  ultimately show ?thesis by blast
qed

text \<open>
  C5 as stated fails when a destination is itself a source. With the sources
  \<^verbatim>\<open>/d/a.html\<close> and \<^verbatim>\<open>/d/en/a.html\<close>, the page of \<^verbatim>\<open>/d/a.html\<close> for
  \<^verbatim>\<open>en\<close> is written over \<^verbatim>\<open>/d/en/a.html\<close> before the pass of \<^verbatim>\<open>fr\<close> reads
  it. For the same source text of \<^verbatim>\<open>/d/en/a.html\<close>, the same table of \<^verbatim>\<open>fr\<close> and
  the same hooks, its artifact for \<^verbatim>\<open>fr\<close> holds the English text and changes with the
  table of \<^verbatim>\<open>en\<close>; the artifact of its own text would be \<^verbatim>\<open><p>Salut</p>\<close>.
\<close>

theorem artifact_depends_on_other_language:
  "map_of (translations_option (overlapOptions ''Hello'')) ''fr''
     = map_of (translations_option (overlapOptions ''Hi'')) ''fr''
   \<and> files (fs overlapWorld) ''/d/en/a.html'' = Some ''<p data-i18n=\"bye\">y</p>''
   \<and> fst (closeBundle overlapHost overlapPlugin (overlapOptions ''Hello'') overlapWorld) = Inr ()
   \<and> fst (closeBundle overlapHost overlapPlugin (overlapOptions ''Hi'') overlapWorld) = Inr ()
   \<and> pagePathOf ''/d/en/a.html'' ''fr'' = ''/d/en/fr/a.html''
   \<and> files (fs (snd (closeBundle overlapHost overlapPlugin (overlapOptions ''Hello'') overlapWorld)))
         ''/d/en/fr/a.html'' = Some ''<html><head></head><body><div>Hello</div></body></html>''
   \<and> files (fs (snd (closeBundle overlapHost overlapPlugin (overlapOptions ''Hi'') overlapWorld)))
         ''/d/en/fr/a.html'' = Some ''<html><head></head><body><div>Hi</div></body></html>''
   \<and> artifactOf overlapHost (overlapOptions ''Hello'') ''fr'' ''<p data-i18n=\"bye\">y</p>''
       = Inr ''<html><head></head><body><p>Salut</p></body></html>''"
  by code_simp

end
